theory Spec2Isabelle
  imports Main
begin

section \<open>Data model\<close>

text \<open>
  Python \<open>str\<close> values are modelled as \<open>string\<close>, one \<open>char\<close> per code point, which covers
  the code points 0 to 255. Exceptions are values of \<open>error\<close>; a computation that may raise
  returns \<open>error + 'a\<close> with \<open>Inl\<close> for the exception. \<open>UpstreamError\<close> stands for whatever
  an external service raises.
\<close>

datatype error =
    AttributeError
  | IndexError
  | KeyError string
  | FileNotFoundError string
  | UpstreamError string

text \<open>A chat message is the dict \<open>{"role": ..., "content": ...}\<close> of \<open>ai.py\<close>.\<close>

record chat_message =
  role :: string
  content :: string

text \<open>The keyword arguments of \<open>InlineQueryResultArticle\<close> in \<open>CatBot.inline_query\<close>.\<close>

record article =
  article_id :: string
  title :: string
  input_message_content :: string
  description :: string
  thumb_url :: string

text \<open>
  The parts of a Telegram update that the handlers read. A field that the library
  declares optional is an \<open>option\<close>: reading an attribute of \<open>None\<close> raises
  \<open>AttributeError\<close>. \<open>chat_id\<close> is \<open>update.effective_chat.id\<close>, which for a message update
  is the chat of the message. \<open>msg_text\<close> is \<open>update.message.text\<close>: the handlers that read
  it are registered behind \<open>filters.TEXT\<close> or a \<open>CommandHandler\<close>, which pass only messages
  that have a text. \<open>voice\<close> stays optional, since \<open>voice_handler\<close> is registered for
  \<open>filters.VOICE | filters.AUDIO\<close> and an audio message has no voice. An edited message
  arrives as \<open>update.edited_message\<close> with \<open>update.message\<close> set to \<open>None\<close>; the message
  filters and the command handlers of \<open>run\<close> pass edited messages as well.
\<close>

record tg_user =
  username :: "string option"

record tg_voice =
  file_id :: string

record tg_message =
  from_user :: "tg_user option"
  chat_id :: int
  msg_text :: string
  voice :: "tg_voice option"

record tg_inline_query =
  query :: string

record tg_update =
  message :: "tg_message option"
  edited_message :: "tg_message option"
  inline_query :: "tg_inline_query option"

text \<open>
  Everything a handler does to the outside world is recorded, in order, as an event:
  log lines, requests to the OpenAI client and calls of the Telegram bot API.
\<close>

datatype event =
    LogInfo string
  | CompletionsCreate string "chat_message list"
  | TranscriptionCreate string string
  | ImageCreate string nat string
  | GetFile string
  | DownloadToDrive string
  | FromOgg string
  | ExportMp3 string string
  | SendMessage int string
  | InlineAnswer "article list"

text \<open>
  The external services, as functions of the request. A chat completion answers with the
  contents of its choices, a transcription with a dict, an image request with the URLs of
  its data entries; each call may raise instead. \<open>transcription_create\<close> is the whole
  expression \<open>self.client.Transcription.create(...)\<close> and \<open>image_create\<close> the whole
  expression \<open>self.client.Image.create(...)\<close>, the attribute lookups included. An event
  records that the expression was evaluated, whether it returned or raised.
\<close>

record env =
  completions_create :: "string \<Rightarrow> chat_message list \<Rightarrow> error + string list"
  transcription_create :: "string \<Rightarrow> string \<Rightarrow> error + (string \<rightharpoonup> string)"
  image_create :: "string \<Rightarrow> nat \<Rightarrow> string \<Rightarrow> error + string list"
  get_file :: "string \<Rightarrow> error option"
  download_to_drive :: "string \<Rightarrow> error option"
  from_ogg :: "string \<Rightarrow> error option"
  export_mp3 :: "string \<Rightarrow> string \<Rightarrow> error option"
  send_message :: "int \<Rightarrow> string \<Rightarrow> error option"
  inline_answer :: "article list \<Rightarrow> error option"

text \<open>The \<open>Catifier\<close> object: the attributes set by \<open>__init__\<close> (the client is \<open>env\<close>).\<close>

record catifier =
  config :: "string \<rightharpoonup> string"
  model :: string
  cat_config :: chat_message

text \<open>
  The state the handlers run in: the \<open>Catifier\<close> object they share, the files of the
  working directory, and the events so far.
\<close>

record state =
  catifier :: catifier
  files :: "string set"
  trace :: "event list"

type_synonym 'a action = "state \<Rightarrow> (error + 'a) \<times> state"

section \<open>Sequencing and primitive actions\<close>

text \<open>Statement sequencing: an exception skips the rest.\<close>

definition then_do :: "'a action \<Rightarrow> ('a \<Rightarrow> 'b action) \<Rightarrow> 'b action" where
  "then_do m f s = (case m s of (Inl e, s') \<Rightarrow> (Inl e, s') | (Inr a, s') \<Rightarrow> f a s')"

definition return :: "'a \<Rightarrow> 'a action" where
  "return a s = (Inr a, s)"

definition raise :: "error \<Rightarrow> 'a action" where
  "raise e s = (Inl e, s)"

definition emit :: "event \<Rightarrow> state \<Rightarrow> state" where
  "emit ev s = s\<lparr>trace := trace s @ [ev]\<rparr>"

definition logging_info :: "string \<Rightarrow> unit action" where
  "logging_info msg s = (Inr (), emit (LogInfo msg) s)"

text \<open>A call that returns nothing: \<open>None\<close> from the service is success.\<close>

definition call_unit :: "event \<Rightarrow> error option \<Rightarrow> unit action" where
  "call_unit ev r s = ((case r of None \<Rightarrow> Inr () | Some e \<Rightarrow> Inl e), emit ev s)"

definition call_value :: "event \<Rightarrow> error + 'a \<Rightarrow> 'a action" where
  "call_value ev r s = (r, emit ev s)"

text \<open>\<open>xs[0]\<close> raises \<open>IndexError\<close> on an empty list.\<close>

definition index0 :: "'a list \<Rightarrow> 'a action" where
  "index0 xs = (case xs of [] \<Rightarrow> raise IndexError | x # _ \<Rightarrow> return x)"

text \<open>\<open>d[k]\<close> raises \<open>KeyError\<close> on a missing key.\<close>

definition getitem :: "(string \<rightharpoonup> 'a) \<Rightarrow> string \<Rightarrow> 'a action" where
  "getitem d k = (case d k of None \<Rightarrow> raise (KeyError k) | Some v \<Rightarrow> return v)"

text \<open>Attribute access through an optional object.\<close>

definition attr :: "'a option \<Rightarrow> 'a action" where
  "attr x = (case x of None \<Rightarrow> raise AttributeError | Some v \<Rightarrow> return v)"

text \<open>The events of a trace by kind.\<close>

fun completion_requests :: "event list \<Rightarrow> chat_message list list" where
  "completion_requests [] = []"
| "completion_requests (CompletionsCreate m msgs # evs) = msgs # completion_requests evs"
| "completion_requests (_ # evs) = completion_requests evs"

fun sent_messages :: "event list \<Rightarrow> (int \<times> string) list" where
  "sent_messages [] = []"
| "sent_messages (SendMessage c t # evs) = (c, t) # sent_messages evs"
| "sent_messages (_ # evs) = sent_messages evs"

fun inline_answers :: "event list \<Rightarrow> article list list" where
  "inline_answers [] = []"
| "inline_answers (InlineAnswer rs # evs) = rs # inline_answers evs"
| "inline_answers (_ # evs) = inline_answers evs"

fun transcription_requests :: "event list \<Rightarrow> string list" where
  "transcription_requests [] = []"
| "transcription_requests (TranscriptionCreate m a # evs) = a # transcription_requests evs"
| "transcription_requests (_ # evs) = transcription_requests evs"

text \<open>The events an action adds when run from \<open>s\<close>.\<close>

definition issued :: "'a action \<Rightarrow> state \<Rightarrow> event list" where
  "issued act s = drop (length (trace s)) (trace (snd (act s)))"

section \<open>The Persona Proxy: \<open>ai.py\<close>\<close>

definition persona_message :: chat_message where
  "persona_message =
     \<lparr>role = ''system'',
      content = ''You mimick a cat and try to rephrase everything using cat-related analogies and puns''\<rparr>"

text \<open>\<open>Catifier.__init__\<close>: both keys are read with \<open>config[...]\<close>.\<close>

definition Catifier_init :: "(string \<rightharpoonup> string) \<Rightarrow> error + catifier" where
  "Catifier_init cfg =
     (case cfg ''OPENAI_API_KEY'' of
        None \<Rightarrow> Inl (KeyError ''OPENAI_API_KEY'')
      | Some _ \<Rightarrow>
          (case cfg ''GPT_MODEL'' of
             None \<Rightarrow> Inl (KeyError ''GPT_MODEL'')
           | Some m \<Rightarrow> Inr \<lparr>config = cfg, model = m, cat_config = persona_message\<rparr>))"

text \<open>
  \<open>message.split(' ', 1)\<close>: at most one split, at the first space character; a string
  without a space is returned whole, as the only part.
\<close>

definition split_space_1 :: "string \<Rightarrow> string list" where
  "split_space_1 s =
     (case dropWhile (\<lambda>c. c \<noteq> CHR '' '') s of
        [] \<Rightarrow> [s]
      | _ # rest \<Rightarrow> [takeWhile (\<lambda>c. c \<noteq> CHR '' '') s, rest])"

text \<open>Lines 36 to 40 of \<open>Catifier.catify\<close>: the message that is sent on.\<close>

definition catify_payload :: "string \<Rightarrow> string" where
  "catify_payload msg =
     (let message_parts = split_space_1 msg
      in if length message_parts > 1 then message_parts ! 1 else '''')"

definition user_message :: "string \<Rightarrow> chat_message" where
  "user_message t = \<lparr>role = ''user'', content = t\<rparr>"

definition chat_completions_create :: "env \<Rightarrow> string \<Rightarrow> chat_message list \<Rightarrow> string list action" where
  "chat_completions_create e m msgs = call_value (CompletionsCreate m msgs) (completions_create e m msgs)"

definition Catifier_catify :: "env \<Rightarrow> string \<Rightarrow> string action" where
  "Catifier_catify e msg s =
     then_do (logging_info (''catify was called with '' @ msg)) (\<lambda>_.
     then_do (chat_completions_create e (model (catifier s))
                [cat_config (catifier s),
                 user_message ''Please turn the following text into a cat text.'',
                 user_message (catify_payload msg)]) (\<lambda>choices.
     then_do (index0 choices) (\<lambda>answer.
     then_do (logging_info (''catify is returning '' @ answer)) (\<lambda>_.
     return answer)))) s"

definition Catifier_reply :: "env \<Rightarrow> string \<Rightarrow> string action" where
  "Catifier_reply e msg s =
     then_do (logging_info (''reply was called with '' @ msg)) (\<lambda>_.
     then_do (chat_completions_create e (model (catifier s))
                [cat_config (catifier s), user_message msg]) (\<lambda>choices.
     then_do (index0 choices) (\<lambda>answer.
     then_do (logging_info (''reply is returning '' @ answer)) (\<lambda>_.
     return answer)))) s"

text \<open>\<open>Catifier.transcribe\<close>; the audio handle is named by the file it was opened from.\<close>

definition Catifier_transcribe :: "env \<Rightarrow> string \<Rightarrow> string action" where
  "Catifier_transcribe e audio_file =
     then_do (call_value (TranscriptionCreate ''whisper-1'' audio_file)
                (transcription_create e ''whisper-1'' audio_file)) (\<lambda>response.
     then_do (getitem response ''text'') (\<lambda>transcript.
     Catifier_catify e transcript))"

text \<open>
  \<open>repr\<close> of a \<open>str\<close>, on the code points 0 to 255: double quotes when the text has a
  single quote and no double quote, single quotes otherwise; a backslash before the quote
  in use and before a backslash; tab, newline and carriage return as a backslash and the
  letter \<open>t\<close>, \<open>n\<close> or \<open>r\<close>; every other code point that is not printable as a backslash,
  the letter \<open>x\<close> and two hexadecimal digits.
\<close>

definition hex_digit :: "nat \<Rightarrow> char" where
  "hex_digit n = ''0123456789abcdef'' ! (n mod 16)"

definition repr_char :: "char \<Rightarrow> char \<Rightarrow> string" where
  "repr_char q c =
     (let n = (of_char c :: nat)
      in if c = q \<or> c = CHR 0x5C then [CHR 0x5C, c]
         else if n = 9 then [CHR 0x5C, CHR ''t'']
         else if n = 10 then [CHR 0x5C, CHR ''n'']
         else if n = 13 then [CHR 0x5C, CHR ''r'']
         else if n < 32 \<or> n = 127 \<or> (128 \<le> n \<and> n \<le> 160) \<or> n = 173
           then [CHR 0x5C, CHR ''x'', hex_digit (n div 16), hex_digit n]
         else [c])"

definition py_repr :: "string \<Rightarrow> string" where
  "py_repr s =
     (let q = (if CHR 0x27 \<in> set s \<and> CHR 0x22 \<notin> set s then CHR 0x22 else CHR 0x27)
      in q # concat (map (repr_char q) s) @ [q])"

text \<open>
  \<open>Catifier.generate_image\<close>: \<open>response['data'][0]['url']\<close>. The log line's
  \<open>{prompt=}\<close> prints the name and the \<open>repr\<close> of the prompt.
\<close>

definition Catifier_generate_image :: "env \<Rightarrow> string \<Rightarrow> string \<Rightarrow> string action" where
  "Catifier_generate_image e prompt image_size =
     then_do (logging_info (''Generate image was called with prompt='' @ py_repr prompt)) (\<lambda>_.
     then_do (call_value (ImageCreate prompt 1 image_size) (image_create e prompt 1 image_size)) (\<lambda>urls.
     then_do (index0 urls) (\<lambda>image_url.
     then_do (logging_info (''Generate image URL: '' @ image_url)) (\<lambda>_.
     return image_url))))"

text \<open>
  The client that \<open>__init__\<close> builds is \<open>openai.OpenAI\<close>, the client class of version 1 of
  the library. It offers \<open>chat.completions.create\<close>, which \<open>catify\<close> and \<open>reply\<close> call. It has
  no attribute \<open>Transcription\<close> and no attribute \<open>Image\<close> (the names of the module-level
  interface of the earlier versions): \<open>self.client.Transcription\<close> and \<open>self.client.Image\<close>
  raise \<open>AttributeError\<close> before any request is made. \<open>OpenAI_client e\<close> is the services \<open>e\<close>
  behind that client.
\<close>

definition OpenAI_client :: "env \<Rightarrow> env" where
  "OpenAI_client e =
     e\<lparr>transcription_create := (\<lambda>m a. Inl AttributeError),
       image_create := (\<lambda>p n sz. Inl AttributeError)\<rparr>"

section \<open>The Command Router: \<open>bot.py\<close>\<close>

subsection \<open>The mention pattern\<close>

text \<open>
  \<open>re.search(r"@(?:CatGPT|Jinxthecatbot)\b", message_text, re.IGNORECASE)\<close>.
  \<open>is_word_char\<close> is the class \<open>\w\<close> of a \<open>str\<close> pattern on the code points 0 to 255:
  digits, letters, the underscore, and the letters and numbers of Latin-1.
\<close>

definition is_word_char :: "char \<Rightarrow> bool" where
  "is_word_char c =
     (let n = (of_char c :: nat)
      in (48 \<le> n \<and> n \<le> 57) \<or> (65 \<le> n \<and> n \<le> 90) \<or> n = 95 \<or> (97 \<le> n \<and> n \<le> 122)
         \<or> n = 170 \<or> n = 178 \<or> n = 179 \<or> n = 181 \<or> n = 185 \<or> n = 186
         \<or> n = 188 \<or> n = 189 \<or> n = 190
         \<or> (192 \<le> n \<and> n \<le> 214) \<or> (216 \<le> n \<and> n \<le> 246) \<or> 248 \<le> n)"

text \<open>
  Under \<open>re.IGNORECASE\<close> a letter of the pattern matches itself in either case; on the
  code points 0 to 255 nothing else matches a letter of the two handles. (Beyond them, the
  code points U+0130 and U+0131 also match the letter \<open>i\<close>, and \<open>\w\<close> is the Unicode class;
  text with such code points is outside this model.)
\<close>

definition ascii_lower :: "char \<Rightarrow> char" where
  "ascii_lower c =
     (let n = (of_char c :: nat) in if 65 \<le> n \<and> n \<le> 90 then char_of (n + 32) else c)"

text \<open>Matching a literal at the start of the text: the rest of the text on success.\<close>

fun match_ignorecase :: "string \<Rightarrow> string \<Rightarrow> string option" where
  "match_ignorecase [] cs = Some cs"
| "match_ignorecase (p # ps) [] = None"
| "match_ignorecase (p # ps) (c # cs) =
     (if ascii_lower c = ascii_lower p then match_ignorecase ps cs else None)"

text \<open>\<open>\b\<close> after a word character: the end of the text, or a character outside \<open>\w\<close>.\<close>

definition word_boundary :: "string \<Rightarrow> bool" where
  "word_boundary rest = (case rest of [] \<Rightarrow> True | c # _ \<Rightarrow> \<not> is_word_char c)"

definition match_handle :: "string \<Rightarrow> string \<Rightarrow> bool" where
  "match_handle h cs = (case match_ignorecase h cs of None \<Rightarrow> False | Some rest \<Rightarrow> word_boundary rest)"

fun re_search_mention :: "string \<Rightarrow> bool" where
  "re_search_mention [] = False"
| "re_search_mention (c # cs) =
     ((c = CHR ''@'' \<and> (match_handle ''CatGPT'' cs \<or> match_handle ''Jinxthecatbot'' cs))
      \<or> re_search_mention cs)"

subsection \<open>Handlers\<close>

text \<open>\<open>str(x)\<close> inside an f-string, for an optional string.\<close>

definition format_opt :: "string option \<Rightarrow> string" where
  "format_opt x = (case x of None \<Rightarrow> ''None'' | Some v \<Rightarrow> v)"

text \<open>The decorator \<open>check_authorized_user\<close>: \<open>inner\<close> around \<open>func\<close>.\<close>

definition check_authorized_user :: "(tg_update \<Rightarrow> 'a action) \<Rightarrow> tg_update \<Rightarrow> 'a action" where
  "check_authorized_user func update =
     then_do (attr (message update)) (\<lambda>msg.
     then_do (attr (from_user msg)) (\<lambda>usr.
     then_do (logging_info (''Authorized access from user: '' @ format_opt (username usr) @ '')'')) (\<lambda>_.
     func update)))"

definition bot_send_message :: "env \<Rightarrow> int \<Rightarrow> string \<Rightarrow> unit action" where
  "bot_send_message e chat txt = call_unit (SendMessage chat txt) (send_message e chat txt)"

text \<open>The function that \<open>CatBot.reply\<close> decorates, and the handler itself.\<close>

definition reply_func :: "env \<Rightarrow> tg_update \<Rightarrow> unit action" where
  "reply_func e update =
     then_do (attr (message update)) (\<lambda>msg.
       let message_text = msg_text msg
       in if \<not> re_search_mention message_text then return ()
          else then_do (Catifier_reply e message_text) (\<lambda>response.
               bot_send_message e (chat_id msg) response))"

definition CatBot_reply :: "env \<Rightarrow> tg_update \<Rightarrow> unit action" where
  "CatBot_reply e = check_authorized_user (reply_func e)"

definition catify_func :: "env \<Rightarrow> tg_update \<Rightarrow> unit action" where
  "catify_func e update =
     then_do (attr (message update)) (\<lambda>msg.
       let message_text = msg_text msg
       in then_do (Catifier_catify e message_text) (\<lambda>response.
          bot_send_message e (chat_id msg) response))"

definition CatBot_catify :: "env \<Rightarrow> tg_update \<Rightarrow> unit action" where
  "CatBot_catify e = check_authorized_user (catify_func e)"

text \<open>
  The file operations of \<open>voice_handler\<close>. A download that raises leaves no file behind;
  one that returns has written its file. \<open>AudioSegment.from_ogg\<close> reads and decodes the
  file. \<open>export\<close> opens the output file for writing before it encodes, so the file is there
  afterwards whether the encoding raised or not.
\<close>

definition file_download_to_drive :: "env \<Rightarrow> string \<Rightarrow> unit action" where
  "file_download_to_drive e path s =
     (case download_to_drive e path of
        Some err \<Rightarrow> (Inl err, emit (DownloadToDrive path) s)
      | None \<Rightarrow> (Inr (), emit (DownloadToDrive path) (s\<lparr>files := insert path (files s)\<rparr>)))"

definition audio_from_ogg :: "env \<Rightarrow> string \<Rightarrow> unit action" where
  "audio_from_ogg e src s =
     (if src \<notin> files s then (Inl (FileNotFoundError src), s)
      else call_unit (FromOgg src) (from_ogg e src) s)"

definition audio_export :: "env \<Rightarrow> string \<Rightarrow> string \<Rightarrow> unit action" where
  "audio_export e src dst s =
     call_unit (ExportMp3 src dst) (export_mp3 e src dst) (s\<lparr>files := insert dst (files s)\<rparr>)"

definition open_rb :: "string \<Rightarrow> string action" where
  "open_rb path s = (if path \<in> files s then (Inr path, s) else (Inl (FileNotFoundError path), s))"

text \<open>\<open>Path(p).unlink(missing_ok=...)\<close>.\<close>

definition unlink :: "string \<Rightarrow> bool \<Rightarrow> unit action" where
  "unlink path missing_ok s =
     (if path \<in> files s then (Inr (), s\<lparr>files := files s - {path}\<rparr>)
      else if missing_ok then (Inr (), s)
      else (Inl (FileNotFoundError path), s))"

definition voice_handler_func :: "env \<Rightarrow> tg_update \<Rightarrow> unit action" where
  "voice_handler_func e update =
     then_do (attr (message update)) (\<lambda>msg.
     then_do (attr (voice msg)) (\<lambda>v.
       let fid = file_id v;
           file_ogg = fid @ ''.ogg'';
           file_mp3 = fid @ ''.mp3''
       in then_do (call_unit (GetFile fid) (get_file e fid)) (\<lambda>_.
          then_do (file_download_to_drive e file_ogg) (\<lambda>_.
          then_do (audio_from_ogg e file_ogg) (\<lambda>_.
          then_do (audio_export e file_ogg file_mp3) (\<lambda>_.
          then_do (open_rb file_mp3) (\<lambda>audio_file.
          then_do (Catifier_transcribe e audio_file) (\<lambda>msg_out.
          then_do (bot_send_message e (chat_id msg) msg_out) (\<lambda>_.
          then_do (unlink file_ogg True) (\<lambda>_.
          unlink file_mp3 True))))))))))"

definition CatBot_voice_handler :: "env \<Rightarrow> tg_update \<Rightarrow> unit action" where
  "CatBot_voice_handler e = check_authorized_user (voice_handler_func e)"

definition thumb_url_const :: string where
  "thumb_url_const =
     ''https://user-images.githubusercontent.com/13839523/227260331-764d699a-e99f-4920-9b03-6b2bae6e0fda.png''"

text \<open>\<open>CatBot.inline_query\<close> is not decorated.\<close>

definition CatBot_inline_query :: "env \<Rightarrow> tg_update \<Rightarrow> unit action" where
  "CatBot_inline_query e update =
     then_do (attr (inline_query update)) (\<lambda>iq.
       let q = query iq
       in if q = [] then return ()
          else
            (let results =
                   [\<lparr>article_id = q,
                     title = ''Ask CatGPT'',
                     input_message_content = q,
                     description = q,
                     thumb_url = thumb_url_const\<rparr>]
             in call_unit (InlineAnswer results) (inline_answer e results)))"

text \<open>\<open>CatBot.generate_image\<close> is not decorated either.\<close>

definition CatBot_generate_image :: "env \<Rightarrow> tg_update \<Rightarrow> unit action" where
  "CatBot_generate_image e update =
     then_do (attr (message update)) (\<lambda>msg.
       let IMAGE_SIZE = ''512x512'';
           prompt = msg_text msg
       in then_do (Catifier_generate_image e prompt IMAGE_SIZE) (\<lambda>image_url.
          bot_send_message e (chat_id msg) (''Look at this image: '' @ image_url)))"

text \<open>
  \<open>update.effective_chat\<close>: the chat of the message or of the edited message; an inline
  query has none.
\<close>

definition effective_chat_id :: "tg_update \<Rightarrow> int option" where
  "effective_chat_id update =
     (case message update of
        Some msg \<Rightarrow> Some (chat_id msg)
      | None \<Rightarrow> (case edited_message update of Some msg \<Rightarrow> Some (chat_id msg) | None \<Rightarrow> None))"

definition CatBot_help :: "env \<Rightarrow> tg_update \<Rightarrow> unit action" where
  "CatBot_help e update =
     then_do (attr (effective_chat_id update)) (\<lambda>chat.
     bot_send_message e chat ''Help me!'')"

definition CatBot_start :: "env \<Rightarrow> tg_update \<Rightarrow> unit action" where
  "CatBot_start e update =
     then_do (attr (effective_chat_id update)) (\<lambda>chat.
     bot_send_message e chat
       (''Hello there, I'' @ [CHR 0x27] @ ''m a cool cat AI assistant, here to help you out! I''
        @ [CHR 0x27] @ ''m not lion when I say that I'' @ [CHR 0x27]
        @ ''m ready to pounce on any task you may have for me!''))"

text \<open>
  The handlers that \<open>run\<close> registers. A run of the bot is a sequence of handler invocations,
  each on its update and with the services as they answer at that time; an exception ends
  the invocation, not the run, and the next invocation starts from the state the last one
  left.
\<close>

datatype handler = OnStart | OnInlineQuery | OnReply | OnCatify | OnImage | OnVoice | OnHelp

fun invoke :: "handler \<Rightarrow> env \<Rightarrow> tg_update \<Rightarrow> unit action" where
  "invoke OnStart = CatBot_start"
| "invoke OnInlineQuery = CatBot_inline_query"
| "invoke OnReply = CatBot_reply"
| "invoke OnCatify = CatBot_catify"
| "invoke OnImage = CatBot_generate_image"
| "invoke OnVoice = CatBot_voice_handler"
| "invoke OnHelp = CatBot_help"

fun run_handlers :: "(handler \<times> env \<times> tg_update) list \<Rightarrow> state \<Rightarrow> state" where
  "run_handlers [] s = s"
| "run_handlers ((h, e, u) # rest) s = run_handlers rest (snd (invoke h e u s))"

section \<open>Specification-level notions and example inputs\<close>

text \<open>
  The mention gate in the words of the specification: the text contains an \<open>@\<close>, then one
  of the two handles in any mix of upper and lower case, and the handle ends the text or is
  followed by a character that is not a word character.
\<close>

definition is_bot_handle :: "string \<Rightarrow> bool" where
  "is_bot_handle h =
     (map ascii_lower h = ''catgpt'' \<or> map ascii_lower h = ''jinxthecatbot'')"

definition mentions_bot :: "string \<Rightarrow> bool" where
  "mentions_bot t =
     (\<exists>pre h post. t = pre @ CHR ''@'' # h @ post \<and> is_bot_handle h
        \<and> (post = [] \<or> \<not> is_word_char (hd post)))"

definition mention_here :: "string \<Rightarrow> bool" where
  "mention_here cs =
     (\<exists>h post. cs = h @ post \<and> is_bot_handle h \<and> (post = [] \<or> \<not> is_word_char (hd post)))"

text \<open>
  The payload of a command in the words of the specification: the command token is the
  text up to the first whitespace character, and it is removed together with the whitespace
  that follows it.
\<close>

definition is_whitespace :: "char \<Rightarrow> bool" where
  "is_whitespace c = (c = CHR '' '' \<or> c = CHR 0x09 \<or> c = CHR 0x0A \<or> c = CHR 0x0D)"

definition strip_command_token :: "string \<Rightarrow> string" where
  "strip_command_token t = dropWhile is_whitespace (dropWhile (\<lambda>c. \<not> is_whitespace c) t)"

text \<open>A command token: a slash followed by characters that are not whitespace.\<close>

definition is_command_token :: "string \<Rightarrow> bool" where
  "is_command_token tok =
     (case tok of [] \<Rightarrow> False | c # cs \<Rightarrow> c = CHR ''/'' \<and> list_all (\<lambda>x. \<not> is_whitespace x) cs)"

text \<open>A configuration, a freshly constructed \<open>Catifier\<close>, services that answer, and updates.\<close>

definition example_config :: "string \<rightharpoonup> string" where
  "example_config = [''OPENAI_API_KEY'' \<mapsto> ''sk-test'', ''GPT_MODEL'' \<mapsto> ''gpt-4'']"

definition example_state :: state where
  "example_state =
     \<lparr>catifier = \<lparr>config = example_config, model = ''gpt-4'', cat_config = persona_message\<rparr>,
      files = {}, trace = []\<rparr>"

definition example_env :: env where
  "example_env =
     \<lparr>completions_create = (\<lambda>m msgs. Inr [''meow'']),
      transcription_create = (\<lambda>m a. Inr [''text'' \<mapsto> ''hello world'']),
      image_create = (\<lambda>p n sz. Inr [''http://img'']),
      get_file = (\<lambda>f. None),
      download_to_drive = (\<lambda>p. None),
      from_ogg = (\<lambda>p. None),
      export_mp3 = (\<lambda>a b. None),
      send_message = (\<lambda>c t. None),
      inline_answer = (\<lambda>rs. None)\<rparr>"

text \<open>The same services with a transcription endpoint that raises.\<close>

definition failing_env :: env where
  "failing_env = example_env\<lparr>transcription_create := (\<lambda>m a. Inl (UpstreamError ''whisper-1''))\<rparr>"

text \<open>The same services with a speech-to-text endpoint that hears one word.\<close>

definition one_word_env :: env where
  "one_word_env = example_env\<lparr>transcription_create := (\<lambda>m a. Inr [''text'' \<mapsto> ''hello''])\<rparr>"

definition example_user :: tg_user where
  "example_user = \<lparr>username = Some ''alice''\<rparr>"

definition text_update :: "string \<Rightarrow> tg_update" where
  "text_update t =
     \<lparr>message = Some \<lparr>from_user = Some example_user, chat_id = 42, msg_text = t, voice = None\<rparr>,
      edited_message = None,
      inline_query = None\<rparr>"

text \<open>The update of a text message that its sender has edited.\<close>

definition edited_text_update :: "string \<Rightarrow> tg_update" where
  "edited_text_update t =
     \<lparr>message = None,
      edited_message =
        Some \<lparr>from_user = Some example_user, chat_id = 42, msg_text = t, voice = None\<rparr>,
      inline_query = None\<rparr>"

definition voice_update :: tg_update where
  "voice_update =
     \<lparr>message = Some \<lparr>from_user = Some example_user, chat_id = 42, msg_text = [],
                      voice = Some \<lparr>file_id = ''v1''\<rparr>\<rparr>,
      edited_message = None,
      inline_query = None\<rparr>"

definition inline_update :: "string \<Rightarrow> tg_update" where
  "inline_update q =
     \<lparr>message = None, edited_message = None, inline_query = Some \<lparr>query = q\<rparr>\<rparr>"

text \<open>
  A run of five handler invocations, the image and voice handlers behind the client that
  \<open>__init__\<close> builds.
\<close>

definition example_calls :: "(handler \<times> env \<times> tg_update) list" where
  "example_calls =
     [(OnCatify, example_env, text_update ''/catify hello''),
      (OnImage, OpenAI_client example_env, text_update ''/image a cat''),
      (OnVoice, OpenAI_client example_env, voice_update),
      (OnInlineQuery, example_env, inline_update ''purr''),
      (OnCatify, example_env, text_update ''/catify again'')]"

section \<open>Basic facts\<close>

lemmas action_defs = then_do_def return_def raise_def emit_def logging_info_def call_unit_def
  call_value_def index0_def getitem_def attr_def chat_completions_create_def Let_def

lemmas example_defs = example_config_def example_state_def example_env_def failing_env_def
  one_word_env_def example_user_def text_update_def voice_update_def inline_update_def
  edited_text_update_def example_calls_def

lemmas handler_defs = check_authorized_user_def bot_send_message_def reply_func_def
  CatBot_reply_def catify_func_def CatBot_catify_def file_download_to_drive_def
  audio_from_ogg_def audio_export_def
  open_rb_def unlink_def voice_handler_func_def CatBot_voice_handler_def CatBot_inline_query_def
  CatBot_generate_image_def Catifier_catify_def Catifier_reply_def Catifier_transcribe_def
  Catifier_generate_image_def format_opt_def

lemma example_init: "Catifier_init example_config = Inr (catifier example_state)"
  by (simp add: Catifier_init_def example_config_def example_state_def)

lemma Catifier_init_cat_config: "Catifier_init cfg = Inr c \<Longrightarrow> cat_config c = persona_message"
  by (auto simp: Catifier_init_def split: option.splits)

subsection \<open>\<open>split(' ', 1)\<close> and the payload of \<open>catify\<close>\<close>

lemma split_space_1_whole:
  assumes "dropWhile (\<lambda>c. c \<noteq> CHR '' '') t = []"
  shows "split_space_1 t = [t]"
  unfolding split_space_1_def assms by simp

lemma split_space_1_parts:
  assumes "dropWhile (\<lambda>c. c \<noteq> CHR '' '') t = x # rest"
  shows "split_space_1 t = [takeWhile (\<lambda>c. c \<noteq> CHR '' '') t, rest]"
  unfolding split_space_1_def assms by simp

lemma catify_payload_drop:
  "catify_payload t = drop (Suc (length (takeWhile (\<lambda>c. c \<noteq> CHR '' '') t))) t"
proof (cases "dropWhile (\<lambda>c. c \<noteq> CHR '' '') t")
  case Nil
  then have tw: "takeWhile (\<lambda>c. c \<noteq> CHR '' '') t = t"
    by (metis append_Nil2 takeWhile_dropWhile_id)
  have "drop (Suc (length (takeWhile (\<lambda>c. c \<noteq> CHR '' '') t))) t = []"
    unfolding tw by simp
  then show ?thesis
    by (simp add: catify_payload_def split_space_1_whole [OF Nil])
next
  case (Cons x rest)
  have "dropWhile (\<lambda>c. c \<noteq> CHR '' '') t = drop (length (takeWhile (\<lambda>c. c \<noteq> CHR '' '') t)) t"
    by (rule dropWhile_eq_drop)
  with Cons have "rest = drop (Suc (length (takeWhile (\<lambda>c. c \<noteq> CHR '' '') t))) t"
    by (metis drop_Suc list.sel(3) tl_drop)
  then show ?thesis
    by (simp add: catify_payload_def split_space_1_parts [OF Cons])
qed

lemma catify_payload_no_space:
  assumes "CHR '' '' \<notin> set m"
  shows "catify_payload m = []"
proof -
  from assms have "dropWhile (\<lambda>c. c \<noteq> CHR '' '') m = []" by auto
  then show ?thesis
    by (simp add: catify_payload_def split_space_1_whole)
qed

lemma catify_payload_first_space:
  assumes "CHR '' '' \<notin> set a"
  shows "catify_payload (a @ CHR '' '' # b) = b"
proof -
  from assms have "dropWhile (\<lambda>c. c \<noteq> CHR '' '') (a @ CHR '' '' # b) = CHR '' '' # b"
    by (induction a) auto
  then show ?thesis
    by (simp add: catify_payload_def split_space_1_parts)
qed

subsection \<open>The events of the proxy operations\<close>

lemma issued_reply:
  "issued (Catifier_reply e t) s =
     LogInfo (''reply was called with '' @ t)
     # CompletionsCreate (model (catifier s)) [cat_config (catifier s), user_message t]
     # (case completions_create e (model (catifier s)) [cat_config (catifier s), user_message t] of
          Inr (c # cs) \<Rightarrow> [LogInfo (''reply is returning '' @ c)] | _ \<Rightarrow> [])"
  by (simp add: issued_def Catifier_reply_def action_defs split: sum.splits list.splits)

lemma issued_catify:
  "issued (Catifier_catify e t) s =
     LogInfo (''catify was called with '' @ t)
     # CompletionsCreate (model (catifier s))
         [cat_config (catifier s),
          user_message ''Please turn the following text into a cat text.'',
          user_message (catify_payload t)]
     # (case completions_create e (model (catifier s))
               [cat_config (catifier s),
                user_message ''Please turn the following text into a cat text.'',
                user_message (catify_payload t)] of
          Inr (c # cs) \<Rightarrow> [LogInfo (''catify is returning '' @ c)] | _ \<Rightarrow> [])"
  by (simp add: issued_def Catifier_catify_def action_defs split: sum.splits list.splits)

lemma requests_catify:
  "completion_requests (issued (Catifier_catify e t) s) =
     [[cat_config (catifier s),
       \<lparr>role = ''user'', content = ''Please turn the following text into a cat text.''\<rparr>,
       \<lparr>role = ''user'', content = catify_payload t\<rparr>]]"
  by (simp add: issued_catify user_message_def split: sum.splits list.splits)

lemma issued_transcribe_ok:
  assumes "transcription_create e ''whisper-1'' audio = Inr d" "d ''text'' = Some tr"
  shows "issued (Catifier_transcribe e audio) s =
     TranscriptionCreate ''whisper-1'' audio
     # issued (Catifier_catify e tr) (emit (TranscriptionCreate ''whisper-1'' audio) s)"
  using assms
  by (simp add: issued_def Catifier_transcribe_def Catifier_catify_def action_defs
      split: sum.splits list.splits)

lemma requests_transcribe_ok:
  assumes "transcription_create e ''whisper-1'' audio = Inr d" "d ''text'' = Some tr"
  shows "completion_requests (issued (Catifier_transcribe e audio) s) =
     [[cat_config (catifier s),
       \<lparr>role = ''user'', content = ''Please turn the following text into a cat text.''\<rparr>,
       \<lparr>role = ''user'', content = catify_payload tr\<rparr>]]"
  by (simp add: issued_transcribe_ok [OF assms] requests_catify emit_def)

lemma transcribe_failure_skips_catify:
  assumes "transcription_create e ''whisper-1'' audio = Inl err"
  shows "fst (Catifier_transcribe e audio s) = Inl err
         \<and> completion_requests (issued (Catifier_transcribe e audio) s) = []"
  using assms
  by (simp add: issued_def Catifier_transcribe_def action_defs)

section \<open>The requests of \<open>reply\<close> and \<open>catify\<close>\<close>

text \<open>
  C7. For every text \<open>t\<close>, \<open>reply(t)\<close> on a constructed \<open>Catifier\<close> issues exactly one
  completion request; its message list has exactly two entries, the persona system message
  and then a user message with content \<open>t\<close>; and when the completion API answers with at
  least one choice, \<open>reply\<close> returns the content of the first choice unchanged.
\<close>

theorem reply_request_and_answer:
  assumes "Catifier_init cfg = Inr (catifier s)"
  shows "completion_requests (issued (Catifier_reply e t) s)
           = [[persona_message, \<lparr>role = ''user'', content = t\<rparr>]]
         \<and> (\<forall>c cs. completions_create e (model (catifier s))
                      [persona_message, \<lparr>role = ''user'', content = t\<rparr>] = Inr (c # cs)
               \<longrightarrow> fst (Catifier_reply e t s) = Inr c)"
proof -
  have p: "cat_config (catifier s) = persona_message"
    using assms by (rule Catifier_init_cat_config)
  have req: "completion_requests (issued (Catifier_reply e t) s)
           = [[persona_message, \<lparr>role = ''user'', content = t\<rparr>]]"
    by (simp add: issued_reply p user_message_def split: sum.splits list.splits)
  have ans: "fst (Catifier_reply e t s) = Inr c"
    if "completions_create e (model (catifier s))
          [persona_message, \<lparr>role = ''user'', content = t\<rparr>] = Inr (c # cs)" for c cs
    using that by (simp add: Catifier_reply_def action_defs p user_message_def)
  from req ans show ?thesis by blast
qed

theorem reply_request_and_answer_witness:
  "Catifier_init example_config = Inr (catifier example_state)
   \<and> completion_requests (issued (Catifier_reply example_env ''purr?'') example_state)
       = [[persona_message, \<lparr>role = ''user'', content = ''purr?''\<rparr>]]
   \<and> fst (Catifier_reply example_env ''purr?'' example_state) = Inr ''meow''"
proof -
  have c: "completions_create example_env (model (catifier example_state))
             [persona_message, \<lparr>role = ''user'', content = ''purr?''\<rparr>] = Inr (''meow'' # [])"
    by (simp add: example_env_def)
  from reply_request_and_answer [OF example_init, of example_env "''purr?''"] c example_init
  show ?thesis by blast
qed

lemma command_token_no_space: "is_command_token tok \<Longrightarrow> CHR '' '' \<notin> set tok"
  by (cases tok) (auto simp: is_command_token_def is_whitespace_def list_all_iff)

text \<open>
  C2, as the code has it by design. For every text \<open>t\<close>, \<open>catify(t)\<close> on a constructed
  \<open>Catifier\<close> issues exactly one completion request; its message list has exactly three
  entries, the persona system message, the user message "Please turn the following text into
  a cat text.", and a third user message. When \<open>t\<close> is a command text, the content of the
  third message is the text after the command: the remainder, when \<open>t\<close> is a command token,
  one space and a remainder that does not begin with whitespace; the empty string, when \<open>t\<close>
  is a command token alone.
\<close>

theorem catify_request_for_command_text:
  assumes "Catifier_init cfg = Inr (catifier s)"
  shows "(\<exists>payload. completion_requests (issued (Catifier_catify e t) s) =
            [[persona_message,
              \<lparr>role = ''user'', content = ''Please turn the following text into a cat text.''\<rparr>,
              \<lparr>role = ''user'', content = payload\<rparr>]])
       \<and> (\<forall>tok rest. is_command_token tok \<and> t = tok @ CHR '' '' # rest
                      \<and> (rest = [] \<or> \<not> is_whitespace (hd rest)) \<longrightarrow>
            completion_requests (issued (Catifier_catify e t) s) =
              [[persona_message,
                \<lparr>role = ''user'', content = ''Please turn the following text into a cat text.''\<rparr>,
                \<lparr>role = ''user'', content = rest\<rparr>]])
       \<and> (is_command_token t \<longrightarrow>
            completion_requests (issued (Catifier_catify e t) s) =
              [[persona_message,
                \<lparr>role = ''user'', content = ''Please turn the following text into a cat text.''\<rparr>,
                \<lparr>role = ''user'', content = []\<rparr>]])"
proof -
  have p: "cat_config (catifier s) = persona_message"
    using assms by (rule Catifier_init_cat_config)
  have 1: "\<exists>payload. completion_requests (issued (Catifier_catify e t) s) =
            [[persona_message,
              \<lparr>role = ''user'', content = ''Please turn the following text into a cat text.''\<rparr>,
              \<lparr>role = ''user'', content = payload\<rparr>]]"
    by (simp add: requests_catify p)
  have 2: "completion_requests (issued (Catifier_catify e t) s) =
              [[persona_message,
                \<lparr>role = ''user'', content = ''Please turn the following text into a cat text.''\<rparr>,
                \<lparr>role = ''user'', content = rest\<rparr>]]"
    if "is_command_token tok \<and> t = tok @ CHR '' '' # rest
          \<and> (rest = [] \<or> \<not> is_whitespace (hd rest))" for tok rest
  proof -
    from that have "CHR '' '' \<notin> set tok" and t: "t = tok @ CHR '' '' # rest"
      by (simp_all add: command_token_no_space)
    then have "catify_payload t = rest"
      by (simp add: catify_payload_first_space)
    then show ?thesis by (simp add: requests_catify p)
  qed
  have 3: "completion_requests (issued (Catifier_catify e t) s) =
              [[persona_message,
                \<lparr>role = ''user'', content = ''Please turn the following text into a cat text.''\<rparr>,
                \<lparr>role = ''user'', content = []\<rparr>]]"
    if "is_command_token t"
  proof -
    from that have "catify_payload t = []"
      by (simp add: command_token_no_space catify_payload_no_space)
    then show ?thesis by (simp add: requests_catify p)
  qed
  from 1 2 3 show ?thesis by blast
qed

text \<open>The command \<open>/catify hello world\<close> and the bare command \<open>/catify\<close>.\<close>

theorem catify_request_for_command_text_witness:
  "Catifier_init example_config = Inr (catifier example_state)
   \<and> is_command_token ''/catify''
   \<and> completion_requests (issued (Catifier_catify example_env ''/catify hello world'') example_state) =
     [[persona_message,
       \<lparr>role = ''user'', content = ''Please turn the following text into a cat text.''\<rparr>,
       \<lparr>role = ''user'', content = ''hello world''\<rparr>]]
   \<and> completion_requests (issued (Catifier_catify example_env ''/catify'') example_state) =
     [[persona_message,
       \<lparr>role = ''user'', content = ''Please turn the following text into a cat text.''\<rparr>,
       \<lparr>role = ''user'', content = []\<rparr>]]"
proof -
  have tok: "is_command_token ''/catify''"
    by (simp add: is_command_token_def is_whitespace_def)
  have h: "is_command_token ''/catify'' \<and> ''/catify hello world'' = ''/catify'' @ CHR '' '' # ''hello world''
           \<and> (''hello world'' = [] \<or> \<not> is_whitespace (hd ''hello world''))"
    using tok by (simp add: is_whitespace_def)
  from catify_request_for_command_text [OF example_init, of example_env "''/catify hello world''"] h
  have a: "completion_requests (issued (Catifier_catify example_env ''/catify hello world'') example_state) =
     [[persona_message,
       \<lparr>role = ''user'', content = ''Please turn the following text into a cat text.''\<rparr>,
       \<lparr>role = ''user'', content = ''hello world''\<rparr>]]"
    by blast
  from catify_request_for_command_text [OF example_init, of example_env "''/catify''"] tok
  have b: "completion_requests (issued (Catifier_catify example_env ''/catify'') example_state) =
     [[persona_message,
       \<lparr>role = ''user'', content = ''Please turn the following text into a cat text.''\<rparr>,
       \<lparr>role = ''user'', content = []\<rparr>]]"
    by blast
  from example_init tok a b show ?thesis by (intro conjI)
qed

text \<open>
  C2 as stated fails: for the command text \<open>/catify hello world\<close> the third message is not
  the input itself (it is \<open>hello world\<close>).
\<close>

theorem catify_content_not_command_text:
  "completion_requests (issued (Catifier_catify example_env ''/catify hello world'') example_state) \<noteq>
     [[persona_message,
       \<lparr>role = ''user'', content = ''Please turn the following text into a cat text.''\<rparr>,
       \<lparr>role = ''user'', content = ''/catify hello world''\<rparr>]]"
  by (simp add: requests_catify catify_payload_drop)

section \<open>Handlers only ever add events\<close>

text \<open>
  Whatever path a decorated function takes, the trace it leaves is the trace it started
  from with events appended.
\<close>

lemma reply_func_extends: "\<exists>evs. trace (snd (reply_func e u s)) = trace s @ evs"
  by (simp add: reply_func_def bot_send_message_def Catifier_reply_def action_defs
      split: sum.splits list.splits option.splits)

lemma catify_func_extends: "\<exists>evs. trace (snd (catify_func e u s)) = trace s @ evs"
  by (simp add: catify_func_def bot_send_message_def Catifier_catify_def action_defs
      split: sum.splits list.splits option.splits)

lemma voice_handler_func_extends: "\<exists>evs. trace (snd (voice_handler_func e u s)) = trace s @ evs"
  by (simp add: voice_handler_func_def bot_send_message_def Catifier_transcribe_def
      Catifier_catify_def file_download_to_drive_def audio_from_ogg_def audio_export_def
      open_rb_def unlink_def
      action_defs split: sum.splits list.splits option.splits)


section \<open>The authorization gate\<close>

lemma gate_passes:
  assumes "message u = Some m" "from_user m = Some usr"
  shows "check_authorized_user func u s =
           func u (emit (LogInfo (''Authorized access from user: '' @ format_opt (username usr) @ '')'')) s)"
  using assms by (simp add: check_authorized_user_def action_defs)

lemma issued_after_log:
  assumes "act s = func (emit ev s)" "\<exists>evs. trace (snd (func (emit ev s))) = trace (emit ev s) @ evs"
  shows "issued act s = ev # issued func (emit ev s)"
proof -
  from assms(2) obtain evs where "trace (snd (func (emit ev s))) = trace (emit ev s) @ evs"
    by auto
  then show ?thesis
    by (simp add: issued_def assms(1) emit_def)
qed

text \<open>
  \<open>reply\<close>, \<open>catify\<close> and \<open>voice_handler\<close> are decorated with \<open>check_authorized_user\<close>: for
  every update that carries a message with a sender, the handler first logs the line with
  the sender's user name (\<open>None\<close> when the sender has none) and then runs its body from
  there, with the body's result and events.
\<close>

lemma gated_handlers_log_then_proceed:
  assumes "message u = Some m" "from_user m = Some usr"
  shows "CatBot_reply e u s =
           reply_func e u (emit (LogInfo (''Authorized access from user: '' @ format_opt (username usr) @ '')'')) s)
       \<and> CatBot_catify e u s =
           catify_func e u (emit (LogInfo (''Authorized access from user: '' @ format_opt (username usr) @ '')'')) s)
       \<and> CatBot_voice_handler e u s =
           voice_handler_func e u (emit (LogInfo (''Authorized access from user: '' @ format_opt (username usr) @ '')'')) s)
       \<and> issued (CatBot_reply e u) s =
           LogInfo (''Authorized access from user: '' @ format_opt (username usr) @ '')'')
           # issued (reply_func e u) (emit (LogInfo (''Authorized access from user: '' @ format_opt (username usr) @ '')'')) s)
       \<and> issued (CatBot_catify e u) s =
           LogInfo (''Authorized access from user: '' @ format_opt (username usr) @ '')'')
           # issued (catify_func e u) (emit (LogInfo (''Authorized access from user: '' @ format_opt (username usr) @ '')'')) s)
       \<and> issued (CatBot_voice_handler e u) s =
           LogInfo (''Authorized access from user: '' @ format_opt (username usr) @ '')'')
           # issued (voice_handler_func e u) (emit (LogInfo (''Authorized access from user: '' @ format_opt (username usr) @ '')'')) s)"
proof -
  let ?ev = "LogInfo (''Authorized access from user: '' @ format_opt (username usr) @ '')'')"
  have r: "CatBot_reply e u s = reply_func e u (emit ?ev s)"
    unfolding CatBot_reply_def by (rule gate_passes [OF assms])
  have c: "CatBot_catify e u s = catify_func e u (emit ?ev s)"
    unfolding CatBot_catify_def by (rule gate_passes [OF assms])
  have v: "CatBot_voice_handler e u s = voice_handler_func e u (emit ?ev s)"
    unfolding CatBot_voice_handler_def by (rule gate_passes [OF assms])
  have ir: "issued (CatBot_reply e u) s = ?ev # issued (reply_func e u) (emit ?ev s)"
    using r reply_func_extends by (rule issued_after_log)
  have ic: "issued (CatBot_catify e u) s = ?ev # issued (catify_func e u) (emit ?ev s)"
    using c catify_func_extends by (rule issued_after_log)
  have iv: "issued (CatBot_voice_handler e u) s = ?ev # issued (voice_handler_func e u) (emit ?ev s)"
    using v voice_handler_func_extends by (rule issued_after_log)
  from r c v ir ic iv show ?thesis by (intro conjI)
qed

text \<open>The gate at a \<open>/catify\<close> command from the user \<open>alice\<close>.\<close>

lemma gated_handlers_example:
  "message (text_update ''/catify hi'') =
      Some \<lparr>from_user = Some example_user, chat_id = 42, msg_text = ''/catify hi'', voice = None\<rparr>
   \<and> hd (issued (CatBot_catify example_env (text_update ''/catify hi'')) example_state) =
        LogInfo ''Authorized access from user: alice)''
   \<and> fst (CatBot_catify example_env (text_update ''/catify hi'') example_state) = Inr ()"
proof -
  have m: "message (text_update ''/catify hi'') =
      Some \<lparr>from_user = Some example_user, chat_id = 42, msg_text = ''/catify hi'', voice = None\<rparr>"
    by (simp add: text_update_def)
  have f: "from_user \<lparr>from_user = Some example_user, chat_id = 42, msg_text = ''/catify hi'', voice = None\<rparr>
            = Some example_user"
    by simp
  have n: "fst (CatBot_catify example_env (text_update ''/catify hi'') example_state) = Inr ()"
    by (simp add: handler_defs action_defs example_defs)
  from gated_handlers_log_then_proceed [OF m f, of example_env example_state] m n
  show ?thesis by (simp add: example_user_def format_opt_def)
qed

text \<open>
  C5 at a failing input. The user \<open>alice\<close> sends the command \<open>/image a cat\<close>.
  \<open>generate_image\<close> is the one handler reaching the \<open>Catifier\<close> that is not decorated with
  \<open>check_authorized_user\<close>: it logs no line with the user's name, whether the image service
  answers or the client raises; behind the client that \<open>__init__\<close> builds its events are the
  log line of \<open>Catifier.generate_image\<close> and the image request, and nothing else.
\<close>

theorem image_handler_logs_no_user:
  "LogInfo ''Authorized access from user: alice)''
     \<notin> set (issued (CatBot_generate_image example_env (text_update ''/image a cat'')) example_state)
   \<and> LogInfo ''Authorized access from user: alice)''
     \<notin> set (issued (CatBot_generate_image (OpenAI_client example_env) (text_update ''/image a cat''))
              example_state)
   \<and> issued (CatBot_generate_image (OpenAI_client example_env) (text_update ''/image a cat''))
        example_state =
       [LogInfo (''Generate image was called with prompt='' @ [CHR 0x27] @ ''/image a cat'' @ [CHR 0x27]),
        ImageCreate ''/image a cat'' 1 ''512x512'']"
  by (simp add: issued_def handler_defs action_defs example_defs OpenAI_client_def py_repr_def
      repr_char_def)

section \<open>Inline queries\<close>

text \<open>
  C8. For every inline query: an empty query string produces no event at all (no answer) and
  the handler returns; any other query is answered with exactly one article whose identifier
  is the query text, whose title is \<open>Ask CatGPT\<close>, whose message content and description are
  the query text, and whose thumbnail is the fixed URL.
\<close>

theorem inline_query_result:
  assumes "inline_query u = Some iq"
  shows "(query iq = [] \<longrightarrow>
            issued (CatBot_inline_query e u) s = [] \<and> fst (CatBot_inline_query e u s) = Inr ())
       \<and> (query iq \<noteq> [] \<longrightarrow>
            issued (CatBot_inline_query e u) s =
              [InlineAnswer
                 [\<lparr>article_id = query iq,
                   title = ''Ask CatGPT'',
                   input_message_content = query iq,
                   description = query iq,
                   thumb_url = ''https://user-images.githubusercontent.com/13839523/227260331-764d699a-e99f-4920-9b03-6b2bae6e0fda.png''\<rparr>]])"
  using assms
  by (simp add: CatBot_inline_query_def issued_def action_defs thumb_url_const_def)

text \<open>The queries \<open>purr\<close> and the empty string.\<close>

theorem inline_query_result_witness:
  "inline_query (inline_update ''purr'') = Some \<lparr>query = ''purr''\<rparr>
   \<and> issued (CatBot_inline_query example_env (inline_update ''purr'')) example_state =
        [InlineAnswer
           [\<lparr>article_id = ''purr'',
             title = ''Ask CatGPT'',
             input_message_content = ''purr'',
             description = ''purr'',
             thumb_url = ''https://user-images.githubusercontent.com/13839523/227260331-764d699a-e99f-4920-9b03-6b2bae6e0fda.png''\<rparr>]]
   \<and> inline_query (inline_update []) = Some \<lparr>query = []\<rparr>
   \<and> issued (CatBot_inline_query example_env (inline_update [])) example_state = []"
proof -
  have 1: "inline_query (inline_update ''purr'') = Some \<lparr>query = ''purr''\<rparr>"
    by (simp add: inline_update_def)
  have 2: "inline_query (inline_update []) = Some \<lparr>query = []\<rparr>"
    by (simp add: inline_update_def)
  from inline_query_result [OF 1, of example_env example_state]
    inline_query_result [OF 2, of example_env example_state] 1 2
  show ?thesis by simp
qed


section \<open>The mention pattern and the specification's mention\<close>

lemma match_ignorecase_iff:
  "match_ignorecase p cs = Some rest \<longleftrightarrow>
     (\<exists>h. cs = h @ rest \<and> map ascii_lower h = map ascii_lower p)"
proof (induction p cs rule: match_ignorecase.induct)
  case (1 cs)
  then show ?case by auto
next
  case (2 p ps)
  then show ?case by auto
next
  case (3 p ps c cs)
  show ?case
  proof
    assume "match_ignorecase (p # ps) (c # cs) = Some rest"
    then have eq: "ascii_lower c = ascii_lower p" and m: "match_ignorecase ps cs = Some rest"
      by (auto split: if_splits)
    from m 3 eq obtain h where "cs = h @ rest" "map ascii_lower h = map ascii_lower ps"
      by auto
    with eq have "c # cs = (c # h) @ rest \<and> map ascii_lower (c # h) = map ascii_lower (p # ps)"
      by simp
    then show "\<exists>h. c # cs = h @ rest \<and> map ascii_lower h = map ascii_lower (p # ps)"
      by (rule exI)
  next
    assume "\<exists>h. c # cs = h @ rest \<and> map ascii_lower h = map ascii_lower (p # ps)"
    then obtain h where h: "c # cs = h @ rest" "map ascii_lower h = map ascii_lower (p # ps)"
      by auto
    from h(2) obtain x h' where hh: "h = x # h'" by (cases h) auto
    with h have "x = c" "cs = h' @ rest" "ascii_lower x = ascii_lower p"
      "map ascii_lower h' = map ascii_lower ps" by auto
    with 3 show "match_ignorecase (p # ps) (c # cs) = Some rest" by auto
  qed
qed

lemma word_boundary_iff: "word_boundary post \<longleftrightarrow> (post = [] \<or> \<not> is_word_char (hd post))"
  by (cases post) (auto simp: word_boundary_def)

lemma match_handle_iff:
  "match_handle p cs \<longleftrightarrow>
     (\<exists>h post. cs = h @ post \<and> map ascii_lower h = map ascii_lower p
        \<and> (post = [] \<or> \<not> is_word_char (hd post)))"
proof
  assume "match_handle p cs"
  then obtain rest where r: "match_ignorecase p cs = Some rest" and b: "word_boundary rest"
    by (auto simp: match_handle_def split: option.splits)
  from r obtain h where "cs = h @ rest" "map ascii_lower h = map ascii_lower p"
    unfolding match_ignorecase_iff by auto
  moreover from b have "rest = [] \<or> \<not> is_word_char (hd rest)"
    by (simp add: word_boundary_iff)
  ultimately have "cs = h @ rest \<and> map ascii_lower h = map ascii_lower p
        \<and> (rest = [] \<or> \<not> is_word_char (hd rest))" by simp
  then show "\<exists>h post. cs = h @ post \<and> map ascii_lower h = map ascii_lower p
        \<and> (post = [] \<or> \<not> is_word_char (hd post))"
    by (intro exI)
next
  assume "\<exists>h post. cs = h @ post \<and> map ascii_lower h = map ascii_lower p
        \<and> (post = [] \<or> \<not> is_word_char (hd post))"
  then obtain h post where c: "cs = h @ post" and h: "map ascii_lower h = map ascii_lower p"
    and b: "post = [] \<or> \<not> is_word_char (hd post)" by auto
  from c h have "\<exists>h. cs = h @ post \<and> map ascii_lower h = map ascii_lower p"
    by (intro exI conjI)
  then have "match_ignorecase p cs = Some post"
    by (simp only: match_ignorecase_iff)
  moreover from b have "word_boundary post" by (simp add: word_boundary_iff)
  ultimately show "match_handle p cs" by (simp add: match_handle_def)
qed

lemma lower_CatGPT: "map ascii_lower ''CatGPT'' = ''catgpt''"
  by code_simp

lemma lower_Jinxthecatbot: "map ascii_lower ''Jinxthecatbot'' = ''jinxthecatbot''"
  by code_simp

lemma ex_disj_merge:
  "((\<exists>h post. A h post \<and> P h \<and> B post) \<or> (\<exists>h post. A h post \<and> Q h \<and> B post))
     \<longleftrightarrow> (\<exists>h post. A h post \<and> (P h \<or> Q h) \<and> B post)"
  by blast

lemma handles_iff:
  "(match_handle ''CatGPT'' cs \<or> match_handle ''Jinxthecatbot'' cs) \<longleftrightarrow> mention_here cs"
proof -
  have 1: "match_handle ''CatGPT'' cs \<longleftrightarrow>
     (\<exists>h post. cs = h @ post \<and> map ascii_lower h = ''catgpt''
        \<and> (post = [] \<or> \<not> is_word_char (hd post)))"
    by (simp only: match_handle_iff lower_CatGPT)
  have 2: "match_handle ''Jinxthecatbot'' cs \<longleftrightarrow>
     (\<exists>h post. cs = h @ post \<and> map ascii_lower h = ''jinxthecatbot''
        \<and> (post = [] \<or> \<not> is_word_char (hd post)))"
    by (simp only: match_handle_iff lower_Jinxthecatbot)
  show ?thesis
    unfolding 1 2 mention_here_def is_bot_handle_def by (rule ex_disj_merge)
qed

lemma mentions_bot_Nil: "\<not> mentions_bot []"
  by (simp add: mentions_bot_def)

lemma mentions_bot_Cons:
  "mentions_bot (c # cs) \<longleftrightarrow> (c = CHR ''@'' \<and> mention_here cs) \<or> mentions_bot cs"
proof
  assume "mentions_bot (c # cs)"
  then obtain pre h post where t: "c # cs = pre @ CHR ''@'' # h @ post"
    and h: "is_bot_handle h"
    and b: "post = [] \<or> \<not> is_word_char (hd post)"
    unfolding mentions_bot_def by auto
  show "(c = CHR ''@'' \<and> mention_here cs) \<or> mentions_bot cs"
  proof (cases pre)
    case Nil
    with t have "c = CHR ''@''" and "cs = h @ post" by simp_all
    with h b have "c = CHR ''@'' \<and> mention_here cs"
      unfolding mention_here_def by (intro conjI exI) simp_all
    then show ?thesis by (rule disjI1)
  next
    case (Cons x pre')
    with t have "cs = pre' @ CHR ''@'' # h @ post" by simp
    with h b have "mentions_bot cs"
      unfolding mentions_bot_def by (intro conjI exI) simp_all
    then show ?thesis by (rule disjI2)
  qed
next
  assume "(c = CHR ''@'' \<and> mention_here cs) \<or> mentions_bot cs"
  then show "mentions_bot (c # cs)"
  proof
    assume a: "c = CHR ''@'' \<and> mention_here cs"
    then obtain h post where cs: "cs = h @ post" and h: "is_bot_handle h"
      and b: "post = [] \<or> \<not> is_word_char (hd post)"
      unfolding mention_here_def by auto
    from a cs have "c # cs = [] @ CHR ''@'' # h @ post" by simp
    with h b show ?thesis
      unfolding mentions_bot_def by (intro conjI exI)
  next
    assume "mentions_bot cs"
    then obtain pre h post where cs: "cs = pre @ CHR ''@'' # h @ post" and h: "is_bot_handle h"
      and b: "post = [] \<or> \<not> is_word_char (hd post)"
      unfolding mentions_bot_def by auto
    from cs have "c # cs = (c # pre) @ CHR ''@'' # h @ post" by simp
    with h b show ?thesis
      unfolding mentions_bot_def by (intro conjI exI)
  qed
qed

lemma re_search_mention_iff: "re_search_mention t \<longleftrightarrow> mentions_bot t"
proof (induction t)
  case Nil
  show ?case by (simp add: mentions_bot_Nil)
next
  case (Cons c cs)
  have "re_search_mention (c # cs) \<longleftrightarrow>
          (c = CHR ''@'' \<and> (match_handle ''CatGPT'' cs \<or> match_handle ''Jinxthecatbot'' cs))
          \<or> re_search_mention cs"
    by (rule re_search_mention.simps(2))
  also have "\<dots> \<longleftrightarrow> (c = CHR ''@'' \<and> mention_here cs) \<or> mentions_bot cs"
    by (simp only: handles_iff Cons.IH)
  also have "\<dots> \<longleftrightarrow> mentions_bot (c # cs)"
    by (simp only: mentions_bot_Cons)
  finally show ?case .
qed

section \<open>The reply handler\<close>

lemma reply_func_mention:
  assumes "message u = Some m" "re_search_mention (msg_text m)"
  shows "issued (reply_func e u) s =
           issued (Catifier_reply e (msg_text m)) s
           @ (case fst (Catifier_reply e (msg_text m) s) of
                Inl err \<Rightarrow> []
              | Inr response \<Rightarrow> [SendMessage (chat_id m) response])"
  using assms
  by (simp add: reply_func_def bot_send_message_def Catifier_reply_def issued_def action_defs
      split: sum.splits list.splits)

lemma reply_func_no_mention:
  assumes "message u = Some m" "\<not> re_search_mention (msg_text m)"
  shows "reply_func e u s = (Inr (), s)"
  using assms by (simp add: reply_func_def action_defs)

lemma completion_requests_append:
  "completion_requests (xs @ ys) = completion_requests xs @ completion_requests ys"
  by (induction xs rule: completion_requests.induct) simp_all

lemma sent_messages_append: "sent_messages (xs @ ys) = sent_messages xs @ sent_messages ys"
  by (induction xs rule: sent_messages.induct) simp_all

lemma sent_messages_reply: "sent_messages (issued (Catifier_reply e t) s) = []"
  by (simp add: issued_reply split: sum.splits list.splits)

lemma requests_reply:
  "completion_requests (issued (Catifier_reply e t) s) =
     [[cat_config (catifier s), \<lparr>role = ''user'', content = t\<rparr>]]"
  by (simp add: issued_reply user_message_def split: sum.splits list.splits)

text \<open>
  For every update that carries a message with a sender, on a constructed \<open>Catifier\<close>: if the
  text mentions the bot (an \<open>@\<close>, one of the two handles in any case, then the end of the
  text or a non-word character), the handler issues exactly one completion request, the
  persona message and the full text, and when the API answers with a choice it sends that
  choice to the chat; if the text does not mention the bot, the handler issues no request,
  sends nothing and returns without an error.
\<close>

lemma reply_mention_gate:
  assumes "Catifier_init cfg = Inr (catifier s)"
    and "message u = Some m" and "from_user m = Some usr"
  shows "(mentions_bot (msg_text m) \<longrightarrow>
            completion_requests (issued (CatBot_reply e u) s) =
              [[persona_message, \<lparr>role = ''user'', content = msg_text m\<rparr>]]
            \<and> (\<forall>c cs. completions_create e (model (catifier s))
                         [persona_message, \<lparr>role = ''user'', content = msg_text m\<rparr>] = Inr (c # cs)
                  \<longrightarrow> sent_messages (issued (CatBot_reply e u) s) = [(chat_id m, c)]
                      \<and> fst (CatBot_reply e u s) = (case send_message e (chat_id m) c of
                                                      None \<Rightarrow> Inr () | Some err \<Rightarrow> Inl err)))
       \<and> (\<not> mentions_bot (msg_text m) \<longrightarrow>
            completion_requests (issued (CatBot_reply e u) s) = []
            \<and> sent_messages (issued (CatBot_reply e u) s) = []
            \<and> fst (CatBot_reply e u s) = Inr ())"
proof -
  define ev where "ev = LogInfo (''Authorized access from user: '' @ format_opt (username usr) @ '')'')"
  define s' where "s' = emit ev s"
  define t where "t = msg_text m"
  have p: "cat_config (catifier s') = persona_message" "model (catifier s') = model (catifier s)"
    using Catifier_init_cat_config [OF assms(1)] by (simp_all add: emit_def s'_def)
  have r: "CatBot_reply e u s = reply_func e u s'"
    unfolding CatBot_reply_def s'_def ev_def by (rule gate_passes [OF assms(2,3)])
  have "\<exists>evs. trace (snd (reply_func e u (emit ev s))) = trace (emit ev s) @ evs"
    by (rule reply_func_extends)
  with r have i: "issued (CatBot_reply e u) s = ev # issued (reply_func e u) s'"
    unfolding s'_def by (rule issued_after_log)
  show ?thesis
  proof (cases "re_search_mention (msg_text m)")
    case True
    note iss = reply_func_mention [OF assms(2) True, of e s']
    have req: "completion_requests (issued (CatBot_reply e u) s) =
              [[persona_message, \<lparr>role = ''user'', content = msg_text m\<rparr>]]"
      by (simp add: i iss completion_requests_append requests_reply p ev_def split: sum.splits)
    have snd: "sent_messages (issued (CatBot_reply e u) s) = [(chat_id m, c)]
               \<and> fst (CatBot_reply e u s) = (case send_message e (chat_id m) c of
                                                      None \<Rightarrow> Inr () | Some err \<Rightarrow> Inl err)"
      if "completions_create e (model (catifier s))
            [persona_message, \<lparr>role = ''user'', content = msg_text m\<rparr>] = Inr (c # cs)" for c cs
    proof -
      from that p have ans: "fst (Catifier_reply e (msg_text m) s') = Inr c"
        by (simp add: Catifier_reply_def action_defs user_message_def)
      have 1: "sent_messages (issued (CatBot_reply e u) s) = [(chat_id m, c)]"
        by (simp add: i iss sent_messages_append sent_messages_reply ans ev_def)
      have 2: "fst (CatBot_reply e u s) = (case send_message e (chat_id m) c of
                                                      None \<Rightarrow> Inr () | Some err \<Rightarrow> Inl err)"
        using that p assms(2) True
        by (simp add: r reply_func_def bot_send_message_def Catifier_reply_def action_defs
            user_message_def)
      from 1 2 show ?thesis by (rule conjI)
    qed
    from True req snd show ?thesis
      unfolding re_search_mention_iff [symmetric] by blast
  next
    case False
    have n: "reply_func e u s' = (Inr (), s')"
      by (rule reply_func_no_mention [OF assms(2) False])
    then have "issued (reply_func e u) s' = []"
      by (simp add: issued_def)
    with n have "completion_requests (issued (CatBot_reply e u) s) = []
            \<and> sent_messages (issued (CatBot_reply e u) s) = []
            \<and> fst (CatBot_reply e u s) = Inr ()"
      by (simp add: i r ev_def)
    with False show ?thesis
      unfolding re_search_mention_iff [symmetric] by blast
  qed
qed


lemma spec_mention_example:
  "re_search_mention (''hey @Jinxthecatbot what'' @ [CHR 0x27] @ ''s up'')"
  by code_simp

lemma spec_no_mention_example: "\<not> re_search_mention ''hey there''"
  by code_simp

text \<open>The two texts of the specification's mention-gate example.\<close>

lemma reply_mention_gate_examples:
  "mentions_bot (''hey @Jinxthecatbot what'' @ [CHR 0x27] @ ''s up'')
   \<and> completion_requests
        (issued (CatBot_reply example_env (text_update (''hey @Jinxthecatbot what'' @ [CHR 0x27] @ ''s up'')))
           example_state) =
       [[persona_message,
         \<lparr>role = ''user'', content = ''hey @Jinxthecatbot what'' @ [CHR 0x27] @ ''s up''\<rparr>]]
   \<and> sent_messages
        (issued (CatBot_reply example_env (text_update (''hey @Jinxthecatbot what'' @ [CHR 0x27] @ ''s up'')))
           example_state) = [(42, ''meow'')]
   \<and> \<not> mentions_bot ''hey there''
   \<and> sent_messages (issued (CatBot_reply example_env (text_update ''hey there'')) example_state) = []
   \<and> fst (CatBot_reply example_env (text_update ''hey there'') example_state) = Inr ()"
proof -
  define t1 where "t1 = ''hey @Jinxthecatbot what'' @ [CHR 0x27] @ ''s up''"
  define m1 where "m1 = \<lparr>from_user = Some example_user, chat_id = 42, msg_text = t1, voice = None\<rparr>"
  define m2 where
    "m2 = \<lparr>from_user = Some example_user, chat_id = 42, msg_text = ''hey there'', voice = None\<rparr>"
  have u1: "message (text_update t1) = Some m1" and f1: "from_user m1 = Some example_user"
    and x1: "msg_text m1 = t1" and c1: "chat_id m1 = 42"
    by (simp_all add: text_update_def m1_def)
  have u2: "message (text_update ''hey there'') = Some m2" and f2: "from_user m2 = Some example_user"
    and x2: "msg_text m2 = ''hey there''"
    by (simp_all add: text_update_def m2_def)
  have y: "mentions_bot t1"
    unfolding t1_def re_search_mention_iff [symmetric] by (rule spec_mention_example)
  have n: "\<not> mentions_bot ''hey there''"
    unfolding re_search_mention_iff [symmetric] by (rule spec_no_mention_example)
  have c: "completions_create example_env (model (catifier example_state))
             [persona_message, \<lparr>role = ''user'', content = t1\<rparr>] = Inr (''meow'' # [])"
    by (simp add: example_env_def)
  from reply_mention_gate [OF example_init u1 f1, of example_env] y c
  have a: "completion_requests (issued (CatBot_reply example_env (text_update t1)) example_state) =
             [[persona_message, \<lparr>role = ''user'', content = t1\<rparr>]]
           \<and> sent_messages (issued (CatBot_reply example_env (text_update t1)) example_state) =
             [(42, ''meow'')]"
    unfolding x1 c1 by blast
  from reply_mention_gate [OF example_init u2 f2, of example_env] n
  have b: "sent_messages (issued (CatBot_reply example_env (text_update ''hey there'')) example_state) = []
           \<and> fst (CatBot_reply example_env (text_update ''hey there'') example_state) = Inr ()"
    unfolding x2 by blast
  from y n a b show ?thesis unfolding t1_def by blast
qed

text \<open>
  C6 at a failing input. A user edits a non-command text message, with or without a mention
  of the bot. The update passes \<open>filters.TEXT & (~filters.COMMAND)\<close> and reaches \<open>reply\<close> with
  \<open>update.message\<close> set to \<open>None\<close>: the decorator raises \<open>AttributeError\<close> on
  \<open>update.message.from_user\<close>, before the mention is looked for. Nothing is logged, forwarded
  or sent, and the handler ends with the exception.
\<close>

theorem reply_raises_on_edited_message:
  "CatBot_reply e (edited_text_update t) s = (Inl AttributeError, s)
   \<and> issued (CatBot_reply e (edited_text_update t)) s = []"
  by (simp add: issued_def CatBot_reply_def check_authorized_user_def action_defs
      edited_text_update_def)

section \<open>The persona message\<close>

lemma requests_transcribe_cases:
  "completion_requests (issued (Catifier_transcribe e audio) s) = []
   \<or> (\<exists>tr. completion_requests (issued (Catifier_transcribe e audio) s) =
        [[cat_config (catifier s),
          \<lparr>role = ''user'', content = ''Please turn the following text into a cat text.''\<rparr>,
          \<lparr>role = ''user'', content = catify_payload tr\<rparr>]])"
proof (cases "transcription_create e ''whisper-1'' audio")
  case (Inl err)
  then show ?thesis by (simp add: transcribe_failure_skips_catify)
next
  case (Inr d)
  show ?thesis
  proof (cases "d ''text''")
    case None
    with Inr have "completion_requests (issued (Catifier_transcribe e audio) s) = []"
      by (simp add: issued_def Catifier_transcribe_def action_defs)
    then show ?thesis by simp
  next
    case (Some tr)
    from requests_transcribe_ok [OF Inr Some] show ?thesis by blast
  qed
qed

lemma catifier_reply_unchanged: "catifier (snd (Catifier_reply e t s)) = catifier s"
  by (simp add: Catifier_reply_def action_defs split: sum.splits list.splits)

lemma catifier_catify_unchanged: "catifier (snd (Catifier_catify e t s)) = catifier s"
  by (simp add: Catifier_catify_def action_defs split: sum.splits list.splits)

lemma catifier_transcribe_unchanged: "catifier (snd (Catifier_transcribe e a s)) = catifier s"
  by (simp add: Catifier_transcribe_def Catifier_catify_def action_defs
      split: sum.splits list.splits option.splits)

text \<open>
  Every handler leaves the \<open>Catifier\<close> as it found it, only appends to the trace, and puts
  the \<open>cat_config\<close> of the \<open>Catifier\<close> first in every completion request it issues; so does
  every run of handlers.
\<close>

lemma step_reply:
  "catifier (snd (CatBot_reply e u s)) = catifier s
   \<and> (\<exists>evs. trace (snd (CatBot_reply e u s)) = trace s @ evs
        \<and> (\<forall>msgs \<in> set (completion_requests evs). msgs \<noteq> [] \<and> hd msgs = cat_config (catifier s)))"
  by (simp add: CatBot_reply_def check_authorized_user_def reply_func_def bot_send_message_def
      Catifier_reply_def format_opt_def action_defs
      split: sum.splits list.splits option.splits)

lemma step_catify:
  "catifier (snd (CatBot_catify e u s)) = catifier s
   \<and> (\<exists>evs. trace (snd (CatBot_catify e u s)) = trace s @ evs
        \<and> (\<forall>msgs \<in> set (completion_requests evs). msgs \<noteq> [] \<and> hd msgs = cat_config (catifier s)))"
  by (simp add: CatBot_catify_def check_authorized_user_def catify_func_def bot_send_message_def
      Catifier_catify_def format_opt_def action_defs
      split: sum.splits list.splits option.splits)

lemma step_voice:
  "catifier (snd (CatBot_voice_handler e u s)) = catifier s
   \<and> (\<exists>evs. trace (snd (CatBot_voice_handler e u s)) = trace s @ evs
        \<and> (\<forall>msgs \<in> set (completion_requests evs). msgs \<noteq> [] \<and> hd msgs = cat_config (catifier s)))"
  by (simp add: CatBot_voice_handler_def check_authorized_user_def voice_handler_func_def
      bot_send_message_def Catifier_transcribe_def Catifier_catify_def file_download_to_drive_def
      audio_from_ogg_def audio_export_def open_rb_def unlink_def format_opt_def action_defs
      split: sum.splits list.splits option.splits)

lemma step_image:
  "catifier (snd (CatBot_generate_image e u s)) = catifier s
   \<and> (\<exists>evs. trace (snd (CatBot_generate_image e u s)) = trace s @ evs
        \<and> (\<forall>msgs \<in> set (completion_requests evs). msgs \<noteq> [] \<and> hd msgs = cat_config (catifier s)))"
  by (simp add: CatBot_generate_image_def Catifier_generate_image_def bot_send_message_def
      action_defs split: sum.splits list.splits option.splits)

lemma step_inline:
  "catifier (snd (CatBot_inline_query e u s)) = catifier s
   \<and> (\<exists>evs. trace (snd (CatBot_inline_query e u s)) = trace s @ evs
        \<and> (\<forall>msgs \<in> set (completion_requests evs). msgs \<noteq> [] \<and> hd msgs = cat_config (catifier s)))"
  by (simp add: CatBot_inline_query_def action_defs split: sum.splits list.splits option.splits)

lemma step_start:
  "catifier (snd (CatBot_start e u s)) = catifier s
   \<and> (\<exists>evs. trace (snd (CatBot_start e u s)) = trace s @ evs
        \<and> (\<forall>msgs \<in> set (completion_requests evs). msgs \<noteq> [] \<and> hd msgs = cat_config (catifier s)))"
  by (simp add: CatBot_start_def bot_send_message_def action_defs
      split: sum.splits list.splits option.splits)

lemma step_help:
  "catifier (snd (CatBot_help e u s)) = catifier s
   \<and> (\<exists>evs. trace (snd (CatBot_help e u s)) = trace s @ evs
        \<and> (\<forall>msgs \<in> set (completion_requests evs). msgs \<noteq> [] \<and> hd msgs = cat_config (catifier s)))"
  by (simp add: CatBot_help_def bot_send_message_def action_defs
      split: sum.splits list.splits option.splits)

lemma step_invoke:
  "catifier (snd (invoke h e u s)) = catifier s
   \<and> (\<exists>evs. trace (snd (invoke h e u s)) = trace s @ evs
        \<and> (\<forall>msgs \<in> set (completion_requests evs). msgs \<noteq> [] \<and> hd msgs = cat_config (catifier s)))"
  by (cases h) (simp_all only: invoke.simps step_reply step_catify step_voice step_image
      step_inline step_start step_help)

lemma run_handlers_invariant:
  "catifier (run_handlers calls s) = catifier s
   \<and> (\<exists>evs. trace (run_handlers calls s) = trace s @ evs
        \<and> (\<forall>msgs \<in> set (completion_requests evs). msgs \<noteq> [] \<and> hd msgs = cat_config (catifier s)))"
proof (induction calls arbitrary: s)
  case Nil
  show ?case by simp
next
  case (Cons call calls)
  obtain h e u where call: "call = (h, e, u)" by (cases call) auto
  define s' where "s' = snd (invoke h e u s)"
  from step_invoke [of h e u s] obtain evs1 where
    c1: "catifier s' = catifier s" and t1: "trace s' = trace s @ evs1"
    and r1: "\<forall>msgs \<in> set (completion_requests evs1). msgs \<noteq> [] \<and> hd msgs = cat_config (catifier s)"
    unfolding s'_def by blast
  from Cons.IH [of s'] obtain evs2 where
    c2: "catifier (run_handlers calls s') = catifier s'"
    and t2: "trace (run_handlers calls s') = trace s' @ evs2"
    and r2: "\<forall>msgs \<in> set (completion_requests evs2). msgs \<noteq> [] \<and> hd msgs = cat_config (catifier s')"
    by blast
  have run: "run_handlers (call # calls) s = run_handlers calls s'"
    by (simp add: call s'_def)
  have "trace (run_handlers (call # calls) s) = trace s @ (evs1 @ evs2)"
    by (simp add: run t1 t2)
  moreover have "\<forall>msgs \<in> set (completion_requests (evs1 @ evs2)).
                   msgs \<noteq> [] \<and> hd msgs = cat_config (catifier s)"
    using r1 r2 c1 by (auto simp: completion_requests_append)
  moreover have "catifier (run_handlers (call # calls) s) = catifier s"
    by (simp add: run c1 c2)
  ultimately show ?case by blast
qed

lemma issued_generate_image_requests:
  "completion_requests (issued (Catifier_generate_image e p sz) s) = []"
  by (simp add: issued_def Catifier_generate_image_def action_defs split: sum.splits list.splits)

lemma catifier_generate_image_unchanged:
  "catifier (snd (Catifier_generate_image e p sz s)) = catifier s"
  by (simp add: Catifier_generate_image_def action_defs split: sum.splits list.splits)

text \<open>
  C9. On a constructed \<open>Catifier\<close>, every chat-completion request issued by \<open>reply\<close>, by
  \<open>catify\<close> and by \<open>transcribe\<close> (which reaches \<open>catify\<close>) has a non-empty message list
  whose first entry is the fixed persona system message; \<open>generate_image\<close> issues no
  completion request; after each of the four operations the \<open>cat_config\<close> of the \<open>Catifier\<close>
  is still that message. The same holds over a run: after any sequence of handler
  invocations, on any updates and with any services, every completion request issued during
  the run has the persona message first, and \<open>cat_config\<close> is still that message.
\<close>

theorem persona_first_and_unchanged:
  assumes "Catifier_init cfg = Inr (catifier s)"
  shows "(\<forall>msgs \<in> set (completion_requests (issued (Catifier_reply e t) s)).
            msgs \<noteq> [] \<and> hd msgs = persona_message)
       \<and> (\<forall>msgs \<in> set (completion_requests (issued (Catifier_catify e t) s)).
            msgs \<noteq> [] \<and> hd msgs = persona_message)
       \<and> (\<forall>msgs \<in> set (completion_requests (issued (Catifier_transcribe e audio) s)).
            msgs \<noteq> [] \<and> hd msgs = persona_message)
       \<and> cat_config (catifier (snd (Catifier_reply e t s))) = persona_message
       \<and> cat_config (catifier (snd (Catifier_catify e t s))) = persona_message
       \<and> cat_config (catifier (snd (Catifier_transcribe e audio s))) = persona_message
       \<and> completion_requests (issued (Catifier_generate_image e prompt image_size) s) = []
       \<and> cat_config (catifier (snd (Catifier_generate_image e prompt image_size s))) = persona_message
       \<and> (\<forall>msgs \<in> set (completion_requests
                           (drop (length (trace s)) (trace (run_handlers calls s)))).
            msgs \<noteq> [] \<and> hd msgs = persona_message)
       \<and> cat_config (catifier (run_handlers calls s)) = persona_message"
proof -
  have p: "cat_config (catifier s) = persona_message"
    using assms by (rule Catifier_init_cat_config)
  have 1: "\<forall>msgs \<in> set (completion_requests (issued (Catifier_reply e t) s)).
            msgs \<noteq> [] \<and> hd msgs = persona_message"
    by (simp add: requests_reply p)
  have 2: "\<forall>msgs \<in> set (completion_requests (issued (Catifier_catify e t) s)).
            msgs \<noteq> [] \<and> hd msgs = persona_message"
    by (simp add: requests_catify p)
  have 3: "\<forall>msgs \<in> set (completion_requests (issued (Catifier_transcribe e audio) s)).
            msgs \<noteq> [] \<and> hd msgs = persona_message"
    using requests_transcribe_cases [of e audio s] by (auto simp: p)
  have 4: "cat_config (catifier (snd (Catifier_reply e t s))) = persona_message"
    by (simp add: catifier_reply_unchanged p)
  have 5: "cat_config (catifier (snd (Catifier_catify e t s))) = persona_message"
    by (simp add: catifier_catify_unchanged p)
  have 6: "cat_config (catifier (snd (Catifier_transcribe e audio s))) = persona_message"
    by (simp add: catifier_transcribe_unchanged p)
  have 7: "completion_requests (issued (Catifier_generate_image e prompt image_size) s) = []"
    by (rule issued_generate_image_requests)
  have 8: "cat_config (catifier (snd (Catifier_generate_image e prompt image_size s))) = persona_message"
    by (simp add: catifier_generate_image_unchanged p)
  from run_handlers_invariant [of calls s] obtain evs where
    c: "catifier (run_handlers calls s) = catifier s"
    and t: "trace (run_handlers calls s) = trace s @ evs"
    and r: "\<forall>msgs \<in> set (completion_requests evs). msgs \<noteq> [] \<and> hd msgs = cat_config (catifier s)"
    by blast
  have 9: "\<forall>msgs \<in> set (completion_requests
                           (drop (length (trace s)) (trace (run_handlers calls s)))).
            msgs \<noteq> [] \<and> hd msgs = persona_message"
    using r by (simp add: t p)
  have 10: "cat_config (catifier (run_handlers calls s)) = persona_message"
    by (simp add: c p)
  from 1 2 3 4 5 6 7 8 9 10 show ?thesis by (intro conjI)
qed

lemma example_calls_requests:
  "completion_requests (drop (length (trace example_state)) (trace (run_handlers example_calls example_state)))
   = [[persona_message,
       \<lparr>role = ''user'', content = ''Please turn the following text into a cat text.''\<rparr>,
       \<lparr>role = ''user'', content = ''hello''\<rparr>],
      [persona_message,
       \<lparr>role = ''user'', content = ''Please turn the following text into a cat text.''\<rparr>,
       \<lparr>role = ''user'', content = ''again''\<rparr>]]"
  by (simp add: example_calls_def handler_defs action_defs example_defs OpenAI_client_def
      user_message_def catify_payload_def split_space_1_def py_repr_def repr_char_def)


text \<open>
  The operations on the example \<open>Catifier\<close>, and a run of five invocations of which two
  issue a request.
\<close>

theorem persona_first_and_unchanged_witness:
  "Catifier_init example_config = Inr (catifier example_state)
   \<and> completion_requests (issued (Catifier_transcribe example_env ''v1.mp3'') example_state) \<noteq> []
   \<and> hd (hd (completion_requests (issued (Catifier_transcribe example_env ''v1.mp3'') example_state)))
       = persona_message
   \<and> hd (hd (completion_requests (issued (Catifier_reply example_env ''hi'') example_state)))
       = persona_message
   \<and> hd (hd (completion_requests (issued (Catifier_catify example_env ''hi'') example_state)))
       = persona_message
   \<and> cat_config (catifier (snd (Catifier_transcribe example_env ''v1.mp3'' example_state)))
       = persona_message
   \<and> length (completion_requests
        (drop (length (trace example_state)) (trace (run_handlers example_calls example_state)))) = 2
   \<and> hd (hd (completion_requests
        (drop (length (trace example_state)) (trace (run_handlers example_calls example_state)))))
       = persona_message
   \<and> hd (hd (tl (completion_requests
        (drop (length (trace example_state)) (trace (run_handlers example_calls example_state))))))
       = persona_message
   \<and> cat_config (catifier (run_handlers example_calls example_state)) = persona_message"
proof -
  have t: "transcription_create example_env ''whisper-1'' ''v1.mp3'' = Inr [''text'' \<mapsto> ''hello world'']"
    by (simp add: example_env_def)
  have r3: "completion_requests (issued (Catifier_transcribe example_env ''v1.mp3'') example_state) =
     [[cat_config (catifier example_state),
       \<lparr>role = ''user'', content = ''Please turn the following text into a cat text.''\<rparr>,
       \<lparr>role = ''user'', content = catify_payload ''hello world''\<rparr>]]"
    by (rule requests_transcribe_ok [OF t]) simp
  have r1: "completion_requests (issued (Catifier_reply example_env ''hi'') example_state) =
     [[cat_config (catifier example_state), \<lparr>role = ''user'', content = ''hi''\<rparr>]]"
    by (rule requests_reply)
  have r2: "completion_requests (issued (Catifier_catify example_env ''hi'') example_state) =
     [[cat_config (catifier example_state),
       \<lparr>role = ''user'', content = ''Please turn the following text into a cat text.''\<rparr>,
       \<lparr>role = ''user'', content = catify_payload ''hi''\<rparr>]]"
    by (rule requests_catify)
  note r4 = example_calls_requests
  from persona_first_and_unchanged
         [OF example_init, of example_env "''hi''" "''v1.mp3''" "''a cat''" "''512x512''" example_calls]
    example_init
  show ?thesis unfolding r1 r2 r3 r4 by simp
qed


section \<open>What \<open>catify\<close> sends on\<close>

text \<open>
  C10. For every string \<open>m\<close>, whether or not it begins with a command token, the payload
  message that \<open>catify\<close> sends is the part of \<open>m\<close> after its first space, and the empty string
  when \<open>m\<close> has no space; the same holds when \<open>m\<close> is the transcript that \<open>transcribe\<close> pipes
  through \<open>catify\<close>: a transcript loses its first word, and a one-word transcript is sent as
  the empty payload.
\<close>

theorem catify_discards_through_first_space:
  "(CHR '' '' \<notin> set m \<longrightarrow>
      completion_requests (issued (Catifier_catify e m) s) =
        [[cat_config (catifier s),
          \<lparr>role = ''user'', content = ''Please turn the following text into a cat text.''\<rparr>,
          \<lparr>role = ''user'', content = []\<rparr>]]
      \<and> (\<forall>audio d. transcription_create e ''whisper-1'' audio = Inr d \<and> d ''text'' = Some m \<longrightarrow>
            completion_requests (issued (Catifier_transcribe e audio) s) =
              [[cat_config (catifier s),
                \<lparr>role = ''user'', content = ''Please turn the following text into a cat text.''\<rparr>,
                \<lparr>role = ''user'', content = []\<rparr>]]))
   \<and> (\<forall>a b. m = a @ CHR '' '' # b \<and> CHR '' '' \<notin> set a \<longrightarrow>
      completion_requests (issued (Catifier_catify e m) s) =
        [[cat_config (catifier s),
          \<lparr>role = ''user'', content = ''Please turn the following text into a cat text.''\<rparr>,
          \<lparr>role = ''user'', content = b\<rparr>]]
      \<and> (\<forall>audio d. transcription_create e ''whisper-1'' audio = Inr d \<and> d ''text'' = Some m \<longrightarrow>
            completion_requests (issued (Catifier_transcribe e audio) s) =
              [[cat_config (catifier s),
                \<lparr>role = ''user'', content = ''Please turn the following text into a cat text.''\<rparr>,
                \<lparr>role = ''user'', content = b\<rparr>]]))"
proof (intro conjI impI allI)
  assume "CHR '' '' \<notin> set m"
  then show "completion_requests (issued (Catifier_catify e m) s) =
        [[cat_config (catifier s),
          \<lparr>role = ''user'', content = ''Please turn the following text into a cat text.''\<rparr>,
          \<lparr>role = ''user'', content = []\<rparr>]]"
    by (simp add: requests_catify catify_payload_no_space)
next
  fix audio d
  assume "CHR '' '' \<notin> set m"
    and "transcription_create e ''whisper-1'' audio = Inr d \<and> d ''text'' = Some m"
  then show "completion_requests (issued (Catifier_transcribe e audio) s) =
              [[cat_config (catifier s),
                \<lparr>role = ''user'', content = ''Please turn the following text into a cat text.''\<rparr>,
                \<lparr>role = ''user'', content = []\<rparr>]]"
    by (simp add: requests_transcribe_ok catify_payload_no_space)
next
  fix a b
  assume "m = a @ CHR '' '' # b \<and> CHR '' '' \<notin> set a"
  then show "completion_requests (issued (Catifier_catify e m) s) =
        [[cat_config (catifier s),
          \<lparr>role = ''user'', content = ''Please turn the following text into a cat text.''\<rparr>,
          \<lparr>role = ''user'', content = b\<rparr>]]"
    by (simp add: requests_catify catify_payload_first_space)
next
  fix a b audio d
  assume "m = a @ CHR '' '' # b \<and> CHR '' '' \<notin> set a"
    and "transcription_create e ''whisper-1'' audio = Inr d \<and> d ''text'' = Some m"
  then show "completion_requests (issued (Catifier_transcribe e audio) s) =
              [[cat_config (catifier s),
                \<lparr>role = ''user'', content = ''Please turn the following text into a cat text.''\<rparr>,
                \<lparr>role = ''user'', content = b\<rparr>]]"
    by (simp add: requests_transcribe_ok catify_payload_first_space)
qed

text \<open>The texts \<open>hello world\<close> and \<open>hello\<close>, directly and as transcripts.\<close>

theorem catify_discards_through_first_space_witness:
  "completion_requests (issued (Catifier_catify example_env ''hello world'') example_state) =
     [[persona_message,
       \<lparr>role = ''user'', content = ''Please turn the following text into a cat text.''\<rparr>,
       \<lparr>role = ''user'', content = ''world''\<rparr>]]
   \<and> completion_requests (issued (Catifier_transcribe example_env ''v1.mp3'') example_state) =
     [[persona_message,
       \<lparr>role = ''user'', content = ''Please turn the following text into a cat text.''\<rparr>,
       \<lparr>role = ''user'', content = ''world''\<rparr>]]
   \<and> completion_requests (issued (Catifier_catify example_env ''hello'') example_state) =
     [[persona_message,
       \<lparr>role = ''user'', content = ''Please turn the following text into a cat text.''\<rparr>,
       \<lparr>role = ''user'', content = []\<rparr>]]
   \<and> completion_requests (issued (Catifier_transcribe one_word_env ''v1.mp3'') example_state) =
     [[persona_message,
       \<lparr>role = ''user'', content = ''Please turn the following text into a cat text.''\<rparr>,
       \<lparr>role = ''user'', content = []\<rparr>]]"
proof -
  have p: "cat_config (catifier example_state) = persona_message"
    by (simp add: example_state_def)
  have t2: "transcription_create example_env ''whisper-1'' ''v1.mp3'' = Inr [''text'' \<mapsto> ''hello world'']
            \<and> [''text'' \<mapsto> ''hello world''] ''text'' = Some ''hello world''"
    by (simp add: example_env_def)
  have t1: "transcription_create one_word_env ''whisper-1'' ''v1.mp3'' = Inr [''text'' \<mapsto> ''hello'']
            \<and> [''text'' \<mapsto> ''hello''] ''text'' = Some ''hello''"
    by (simp add: one_word_env_def example_env_def)
  have w2: "''hello world'' = ''hello'' @ CHR '' '' # ''world'' \<and> CHR '' '' \<notin> set ''hello''"
    by simp
  have w1: "CHR '' '' \<notin> set ''hello''"
    by simp
  from catify_discards_through_first_space [of "''hello world''" example_env example_state] w2 t2
  have a: "completion_requests (issued (Catifier_catify example_env ''hello world'') example_state) =
     [[persona_message,
       \<lparr>role = ''user'', content = ''Please turn the following text into a cat text.''\<rparr>,
       \<lparr>role = ''user'', content = ''world''\<rparr>]]
   \<and> completion_requests (issued (Catifier_transcribe example_env ''v1.mp3'') example_state) =
     [[persona_message,
       \<lparr>role = ''user'', content = ''Please turn the following text into a cat text.''\<rparr>,
       \<lparr>role = ''user'', content = ''world''\<rparr>]]"
    unfolding p by blast
  from catify_discards_through_first_space [of "''hello''" one_word_env example_state] w1 t1
  have b: "completion_requests (issued (Catifier_transcribe one_word_env ''v1.mp3'') example_state) =
     [[persona_message,
       \<lparr>role = ''user'', content = ''Please turn the following text into a cat text.''\<rparr>,
       \<lparr>role = ''user'', content = []\<rparr>]]"
    unfolding p by blast
  from catify_discards_through_first_space [of "''hello''" example_env example_state] w1
  have c: "completion_requests (issued (Catifier_catify example_env ''hello'') example_state) =
     [[persona_message,
       \<lparr>role = ''user'', content = ''Please turn the following text into a cat text.''\<rparr>,
       \<lparr>role = ''user'', content = []\<rparr>]]"
    unfolding p by blast
  from a b c show ?thesis by simp
qed



text \<open>
  C4 at a failing input: every audio handle. \<open>transcribe\<close> reads \<open>self.client.Transcription\<close>
  on the client that \<open>__init__\<close> builds, which has no such attribute: the call raises
  \<open>AttributeError\<close>, no transcript is extracted and no completion request is issued, so
  \<open>transcribe\<close> never returns the catification of a transcript. (That any failing
  transcription skips \<open>catify\<close> and fails \<open>transcribe\<close> is \<open>transcribe_failure_skips_catify\<close>.)
\<close>

theorem transcribe_raises_on_openai_client:
  "fst (Catifier_transcribe (OpenAI_client e) audio s) = Inl AttributeError
   \<and> completion_requests (issued (Catifier_transcribe (OpenAI_client e) audio) s) = []"
proof -
  have "transcription_create (OpenAI_client e) ''whisper-1'' audio = Inl AttributeError"
    by (simp add: OpenAI_client_def)
  then show ?thesis by (rule transcribe_failure_skips_catify)
qed

text \<open>
  Were the speech-to-text call to return the transcript \<open>hello world\<close>, the completion
  request of \<open>transcribe\<close> would carry the payload \<open>world\<close>, not the full transcript.
\<close>

lemma transcribe_sends_transcript_without_first_word:
  "(case transcription_create example_env ''whisper-1'' ''v1.mp3'' of
      Inl err \<Rightarrow> None | Inr d \<Rightarrow> d ''text'') = Some ''hello world''
   \<and> completion_requests (issued (Catifier_transcribe example_env ''v1.mp3'') example_state) =
     [[persona_message,
       \<lparr>role = ''user'', content = ''Please turn the following text into a cat text.''\<rparr>,
       \<lparr>role = ''user'', content = ''world''\<rparr>]]"
proof -
  have t: "transcription_create example_env ''whisper-1'' ''v1.mp3'' = Inr [''text'' \<mapsto> ''hello world'']"
    by (simp add: example_env_def)
  have r: "completion_requests (issued (Catifier_transcribe example_env ''v1.mp3'') example_state) =
     [[cat_config (catifier example_state),
       \<lparr>role = ''user'', content = ''Please turn the following text into a cat text.''\<rparr>,
       \<lparr>role = ''user'', content = catify_payload ''hello world''\<rparr>]]"
    by (rule requests_transcribe_ok [OF t]) simp
  have p: "catify_payload ''hello world'' = ''world''"
    using catify_payload_first_space [of "''hello''" "''world''"] by simp
  show ?thesis
    by (simp add: r p t) (simp add: example_state_def)
qed

section \<open>The temporary files of the voice handler\<close>

lemma unlink_missing_ok_total:
  "fst (unlink path True s) = Inr () \<and> path \<notin> files (snd (unlink path True s))"
  by (simp add: unlink_def)

lemma voice_handler_success_removes_files:
  assumes "message u = Some m" "from_user m = Some usr" "voice m = Some v"
    and "fst (CatBot_voice_handler e u s) = Inr ()"
  shows "file_id v @ ''.ogg'' \<notin> files (snd (CatBot_voice_handler e u s))
       \<and> file_id v @ ''.mp3'' \<notin> files (snd (CatBot_voice_handler e u s))"
  using assms
  by (auto simp: CatBot_voice_handler_def check_authorized_user_def voice_handler_func_def
      bot_send_message_def Catifier_transcribe_def Catifier_catify_def file_download_to_drive_def
      audio_from_ogg_def audio_export_def open_rb_def unlink_def action_defs
      split: sum.splits list.splits option.splits if_splits)

lemma voice_handler_transcription_failure_keeps_files:
  assumes "message u = Some m" "from_user m = Some usr" "voice m = Some v"
    and "get_file e (file_id v) = None"
    and "download_to_drive e (file_id v @ ''.ogg'') = None"
    and "from_ogg e (file_id v @ ''.ogg'') = None"
    and "export_mp3 e (file_id v @ ''.ogg'') (file_id v @ ''.mp3'') = None"
    and "transcription_create e ''whisper-1'' (file_id v @ ''.mp3'') = Inl err"
  shows "fst (CatBot_voice_handler e u s) = Inl err
       \<and> file_id v @ ''.ogg'' \<in> files (snd (CatBot_voice_handler e u s))
       \<and> file_id v @ ''.mp3'' \<in> files (snd (CatBot_voice_handler e u s))"
  using assms
  by (simp add: CatBot_voice_handler_def check_authorized_user_def voice_handler_func_def
      Catifier_transcribe_def file_download_to_drive_def
      audio_from_ogg_def audio_export_def open_rb_def action_defs)

text \<open>
  C1 at a failing input. The voice message \<open>v1\<close> is downloaded and transcoded, the
  transcription call raises, and the handler ends with that exception while both temporary
  files are still in storage. (On the path without an exception both files are removed:
  \<open>voice_handler_success_removes_files\<close>; removing an absent file does not raise:
  \<open>unlink_missing_ok_total\<close>.)
\<close>

theorem voice_handler_leaves_files_when_transcription_fails:
  "fst (CatBot_voice_handler failing_env voice_update example_state) = Inl (UpstreamError ''whisper-1'')
   \<and> ''v1.ogg'' \<in> files (snd (CatBot_voice_handler failing_env voice_update example_state))
   \<and> ''v1.mp3'' \<in> files (snd (CatBot_voice_handler failing_env voice_update example_state))"
  by (simp add: handler_defs action_defs example_defs)

lemma voice_handler_success_example:
  "fst (CatBot_voice_handler example_env voice_update example_state) = Inr ()
   \<and> ''v1.ogg'' \<notin> files (snd (CatBot_voice_handler example_env voice_update example_state))
   \<and> ''v1.mp3'' \<notin> files (snd (CatBot_voice_handler example_env voice_update example_state))"
  by (simp add: handler_defs action_defs example_defs)

section \<open>The payload of the \<open>/catify\<close> command\<close>

lemma catify_func_requests:
  assumes "message u = Some m"
  shows "completion_requests (issued (catify_func e u) s) =
     [[cat_config (catifier s),
       \<lparr>role = ''user'', content = ''Please turn the following text into a cat text.''\<rparr>,
       \<lparr>role = ''user'', content = catify_payload (msg_text m)\<rparr>]]"
  using assms
  by (simp add: catify_func_def bot_send_message_def Catifier_catify_def issued_def action_defs
      user_message_def split: sum.splits list.splits)

lemma spec_payload_examples:
  "catify_payload ''/catify hello world'' = ''hello world''
   \<and> strip_command_token ''/catify hello world'' = ''hello world''
   \<and> catify_payload ''/catify'' = []
   \<and> strip_command_token ''/catify'' = []"
  by (simp add: catify_payload_drop strip_command_token_def is_whitespace_def)

lemma payload_agrees_after_single_space:
  assumes "\<forall>c \<in> set tok. \<not> is_whitespace c" and "rest = [] \<or> \<not> is_whitespace (hd rest)"
  shows "catify_payload (tok @ CHR '' '' # rest) = strip_command_token (tok @ CHR '' '' # rest)"
proof -
  from assms(1) have ns: "CHR '' '' \<notin> set tok"
    by (auto simp: is_whitespace_def)
  from assms(1) have "dropWhile (\<lambda>c. \<not> is_whitespace c) (tok @ CHR '' '' # rest) = CHR '' '' # rest"
    by (induction tok) (auto simp: is_whitespace_def)
  moreover from assms(2) have "dropWhile is_whitespace rest = rest"
    by (cases rest) auto
  ultimately have "strip_command_token (tok @ CHR '' '' # rest) = rest"
    by (simp add: strip_command_token_def is_whitespace_def)
  with catify_payload_first_space [OF ns] show ?thesis by simp
qed

text \<open>
  C3 at a failing input. In the command text \<open>/catify\<close>, newline, \<open>hello world\<close> the command
  token is \<open>/catify\<close> and the text that follows it is \<open>hello world\<close>; the request that the
  \<open>/catify\<close> handler causes carries the payload \<open>world\<close>. (The two examples of the
  specification do hold: \<open>spec_payload_examples\<close>.)
\<close>

theorem catify_command_newline_payload:
  "strip_command_token (''/catify'' @ [CHR 0x0A] @ ''hello world'') = ''hello world''
   \<and> completion_requests
       (issued (CatBot_catify example_env (text_update (''/catify'' @ [CHR 0x0A] @ ''hello world'')))
          example_state)
     = [[persona_message,
         \<lparr>role = ''user'', content = ''Please turn the following text into a cat text.''\<rparr>,
         \<lparr>role = ''user'', content = ''world''\<rparr>]]"
proof -
  have 1: "strip_command_token (''/catify'' @ [CHR 0x0A] @ ''hello world'') = ''hello world''"
    by (simp add: strip_command_token_def is_whitespace_def)
  have 2: "completion_requests
       (issued (CatBot_catify example_env (text_update (''/catify'' @ [CHR 0x0A] @ ''hello world'')))
          example_state)
     = [[persona_message,
         \<lparr>role = ''user'', content = ''Please turn the following text into a cat text.''\<rparr>,
         \<lparr>role = ''user'', content = ''world''\<rparr>]]"
    by (simp add: handler_defs action_defs example_defs issued_def user_message_def
        catify_payload_def split_space_1_def)
  from 1 2 show ?thesis by (rule conjI)
qed

lemma catify_command_double_space_payload:
  "catify_payload ''/catify  hi'' = '' hi'' \<and> strip_command_token ''/catify  hi'' = ''hi''"
  by (simp add: catify_payload_drop strip_command_token_def is_whitespace_def)

end
